theory Spec2Isabelle
  imports Complex_Main "HOL-Library.Word"
begin

section \<open>Data model\<close>

text \<open>
  The battle engine of tinygocha (package \<open>game\<close> and package \<open>math\<close>), embedded
  shallowly.  Conventions:
  \<^item> Go \<open>int\<close> is a 64-bit two's complement integer: a \<open>64 word\<close>, read with
    \<open>sint\<close>, compared with \<open><s\<close> and \<open>\<le>s\<close>; \<open>+\<close> and \<open>-\<close> wrap as in Go.
  \<^item> Go \<open>float64\<close> is modelled by \<open>real\<close>: exact arithmetic, no rounding, no NaN
    and no infinities.
  \<^item> A \<open>*Unit\<close> is an address (\<open>nat\<close>) into a store of units; every place that
    holds a pointer (group leader and members, the AI's target enemy, the
    flattened slices built each tick) holds the address, so that aliasing is as
    in the source.  A nil pointer is \<open>None\<close>.
  \<^item> The \<open>Animation\<close> field of a unit is presentation state that no function below
    reads for its result; it is left out, together with all \<open>fmt.Printf\<close> calls.
\<close>

type_synonym goint = "64 word"

record Vector2D =
  X :: real
  Y :: real

datatype AIAction =
  AIActionIdle | AIActionApproach | AIActionRetreat | AIActionAttack | AIActionHold

record AIBehavior =
  TargetEnemy :: "nat option"
  PreferredRange :: real
  AggressionLevel :: real
  LastDecisionTime :: real
  DecisionCooldown :: real
  CurrentAction :: AIAction
  ActionStartTime :: real
  ActionDuration :: real

text \<open>\<open>UnitType\<close> is a Go string type with three named constants; the armies also
  use the literals \<open>"heavy_infantry"\<close> and \<open>"cavalry"\<close>.\<close>

type_synonym UnitType = string

definition UnitTypeInfantry :: UnitType where
  "UnitTypeInfantry = ''infantry''"

definition UnitTypeArcher :: UnitType where
  "UnitTypeArcher = ''archer''"

definition UnitTypeMage :: UnitType where
  "UnitTypeMage = ''mage''"

record UnitTypeConfig =
  cfg_Name :: string
  cfg_HP :: goint
  cfg_Attack :: goint
  cfg_Defense :: goint
  cfg_Speed :: real
  cfg_Range :: real
  cfg_MagicPower :: goint
  cfg_Size :: real

text \<open>The field \<open>Range\<close> of the source is \<open>AttackRange\<close> here (\<open>Range\<close> is a constant
  of HOL).\<close>

record Unit =
  ID :: goint
  Type :: UnitType
  Name :: string
  HP :: goint
  MaxHP :: goint
  AttackPower :: goint
  Defense :: goint
  Speed :: real
  AttackRange :: real
  MagicPower :: goint
  Size :: real
  Position :: Vector2D
  Target :: Vector2D
  IsLeader :: bool
  IsAlive :: bool
  IsRetreating :: bool
  GroupID :: goint
  ArmyID :: goint
  LastAttackTime :: real
  AttackCooldown :: real
  AI :: "AIBehavior option"

type_synonym store = "nat \<Rightarrow> Unit"

datatype FormationType = CircleFormation

record Formation =
  Formation_Type :: FormationType
  Radius :: real
  Spacing :: real

record Group =
  g_ID :: goint
  Leader :: "nat option"
  Members :: "nat list"
  g_Formation :: Formation
  g_ArmyID :: goint
  targetPosition :: Vector2D

record Army =
  a_ID :: goint
  a_Name :: string
  Groups :: "Group list"
  Side :: goint

text \<open>The battle manager, with the store of all units.  \<open>Stage\<close> and \<open>TerrainData\<close>
  are read only while the armies are built and are left out.\<close>

record BattleManager =
  ArmyA :: Army
  ArmyB :: Army
  BattleTime :: real
  TimeLimit :: real
  IsActive :: bool
  Winner :: goint
  nextUnitID :: goint
  units :: store

section \<open>Vector math\<close>

definition Add :: "Vector2D \<Rightarrow> Vector2D \<Rightarrow> Vector2D" where
  "Add v other = \<lparr>X = X v + X other, Y = Y v + Y other\<rparr>"

definition Sub :: "Vector2D \<Rightarrow> Vector2D \<Rightarrow> Vector2D" where
  "Sub v other = \<lparr>X = X v - X other, Y = Y v - Y other\<rparr>"

definition Mul :: "Vector2D \<Rightarrow> real \<Rightarrow> Vector2D" where
  "Mul v scalar = \<lparr>X = X v * scalar, Y = Y v * scalar\<rparr>"

definition Distance :: "Vector2D \<Rightarrow> Vector2D \<Rightarrow> real" where
  "Distance v other =
     (let dx = X v - X other; dy = Y v - Y other in sqrt (dx * dx + dy * dy))"

definition Length :: "Vector2D \<Rightarrow> real" where
  "Length v = sqrt (X v * X v + Y v * Y v)"

definition Normalize :: "Vector2D \<Rightarrow> Vector2D" where
  "Normalize v =
     (let length = Length v in
      if length = 0 then \<lparr>X = 0, Y = 0\<rparr>
      else \<lparr>X = X v / length, Y = Y v / length\<rparr>)"

section \<open>Unit\<close>

definition NewAIBehavior :: "UnitType \<Rightarrow> AIBehavior" where
  "NewAIBehavior unitType =
     (let ai = \<lparr>TargetEnemy = None, PreferredRange = 0, AggressionLevel = 0,
                LastDecisionTime = 0, DecisionCooldown = 0.1,
                CurrentAction = AIActionIdle, ActionStartTime = 0, ActionDuration = 0\<rparr>
      in if unitType = UnitTypeInfantry then ai\<lparr>PreferredRange := 15, AggressionLevel := 0.7\<rparr>
         else if unitType = UnitTypeArcher then ai\<lparr>PreferredRange := 600, AggressionLevel := 0.5\<rparr>
         else if unitType = UnitTypeMage then ai\<lparr>PreferredRange := 480, AggressionLevel := 0.4\<rparr>
         else if unitType = ''heavy_infantry'' then ai\<lparr>PreferredRange := 20, AggressionLevel := 0.8\<rparr>
         else if unitType = ''cavalry'' then ai\<lparr>PreferredRange := 25, AggressionLevel := 0.9\<rparr>
         else ai\<lparr>PreferredRange := 15, AggressionLevel := 0.6\<rparr>)"

definition NewUnit ::
  "goint \<Rightarrow> UnitType \<Rightarrow> UnitTypeConfig \<Rightarrow> bool \<Rightarrow> goint \<Rightarrow> goint \<Rightarrow> Unit" where
  "NewUnit uid unitType config isLeader groupID armyID =
     \<lparr>ID = uid, Type = unitType, Name = cfg_Name config,
      HP = cfg_HP config, MaxHP = cfg_HP config,
      AttackPower = cfg_Attack config, Defense = cfg_Defense config,
      Speed = cfg_Speed config, AttackRange = cfg_Range config,
      MagicPower = cfg_MagicPower config, Size = cfg_Size config,
      Position = \<lparr>X = 0, Y = 0\<rparr>, Target = \<lparr>X = 0, Y = 0\<rparr>,
      IsLeader = isLeader, IsAlive = True, IsRetreating = False,
      GroupID = groupID, ArmyID = armyID,
      LastAttackTime = 0, AttackCooldown = 1.0,
      AI = Some (NewAIBehavior unitType)\<rparr>"

definition GetCollisionRadius :: "Unit \<Rightarrow> real" where
  "GetCollisionRadius u = (let baseRadius = 3.0 in baseRadius * Size u)"

definition GetSightRange :: "Unit \<Rightarrow> real" where
  "GetSightRange u = 5000.0"

definition GetHealthPercentage :: "Unit \<Rightarrow> real" where
  "GetHealthPercentage u =
     (if MaxHP u = 0 then 0
      else real_of_int (sint (HP u)) / real_of_int (sint (MaxHP u)))"

definition MoveTo :: "Unit \<Rightarrow> Vector2D \<Rightarrow> Unit" where
  "MoveTo u target = u\<lparr>Target := target\<rparr>"

definition CanAttack :: "Unit \<Rightarrow> bool" where
  "CanAttack u \<longleftrightarrow> IsAlive u \<and> LastAttackTime u \<le> 0"

text \<open>\<open>Unit.Update\<close>: a dead unit only advances its death animation; a living one
  counts its cooldown down and steps towards its target.\<close>

definition Unit_Update :: "Unit \<Rightarrow> real \<Rightarrow> Unit" where
  "Unit_Update u deltaTime =
     (if \<not> IsAlive u then u
      else
        let u1 = (if LastAttackTime u > 0
                  then (let t = LastAttackTime u - deltaTime
                        in u\<lparr>LastAttackTime := (if t < 0 then 0 else t)\<rparr>)
                  else u);
            isMoving = (Distance (Position u1) (Target u1) > GetCollisionRadius u1)
        in if isMoving
           then (let direction = Normalize (Sub (Target u1) (Position u1));
                     movement = Mul direction (Speed u1 * deltaTime)
                 in u1\<lparr>Position := Add (Position u1) movement\<rparr>)
           else u1)"

definition TakeDamage :: "Unit \<Rightarrow> goint \<Rightarrow> Unit" where
  "TakeDamage u damage =
     (if \<not> IsAlive u then u
      else
        let u1 = u\<lparr>HP := HP u - damage\<rparr>
        in if HP u1 \<le>s 0 then u1\<lparr>HP := 0, IsAlive := False\<rparr> else u1)"

definition StartRetreating :: "Unit \<Rightarrow> Vector2D \<Rightarrow> Unit" where
  "StartRetreating u exitPoint = u\<lparr>IsRetreating := True, Target := exitPoint\<rparr>"

text \<open>\<open>u.Attack(target)\<close> with \<open>u\<close> at address \<open>a\<close> and \<open>target\<close> at address \<open>t\<close>:
  the value returned and the store afterwards.\<close>

definition Attack :: "store \<Rightarrow> nat \<Rightarrow> nat \<Rightarrow> goint \<times> store" where
  "Attack s a t =
     (if \<not> CanAttack (s a) \<or> \<not> IsAlive (s t) then (0, s)
      else
        let distance = Distance (Position (s a)) (Position (s t));
            effectiveRange = AttackRange (s a) + GetCollisionRadius (s a)
                             + GetCollisionRadius (s t)
        in if distance > effectiveRange then (0, s)
           else
             let baseDamage = AttackPower (s a);
                 baseDamage = (if Type (s a) = UnitTypeMage
                               then baseDamage + MagicPower (s a) else baseDamage);
                 damage = baseDamage - Defense (s t);
                 damage = (if damage <s 1 then 1 else damage);
                 s1 = s(t := TakeDamage (s t) damage);
                 s2 = s1(a := (s1 a)\<lparr>LastAttackTime := AttackCooldown (s1 a)\<rparr>)
             in (damage, s2))"

definition IsCollidingWith :: "Unit \<Rightarrow> Unit \<Rightarrow> bool" where
  "IsCollidingWith u other =
     (if \<not> IsAlive u \<or> \<not> IsAlive other then False
      else
        let distance = Distance (Position u) (Position other);
            combinedRadius = GetCollisionRadius u + GetCollisionRadius other
        in distance < combinedRadius)"

text \<open>\<open>u.ResolveCollision(other)\<close> on the store; the second write reads the store
  after the first, as the source does through its two pointers.\<close>

definition ResolveCollision :: "store \<Rightarrow> nat \<Rightarrow> nat \<Rightarrow> store" where
  "ResolveCollision s a b =
     (if \<not> IsAlive (s a) \<or> \<not> IsAlive (s b) then s
      else
        let distance = Distance (Position (s a)) (Position (s b));
            combinedRadius = GetCollisionRadius (s a) + GetCollisionRadius (s b)
        in if distance < combinedRadius \<and> distance > 0
           then
             let overlap = combinedRadius - distance;
                 direction = Normalize (Sub (Position (s b)) (Position (s a)));
                 pushDistance = overlap * 0.5;
                 s1 = s(a := (s a)\<lparr>Position := Sub (Position (s a)) (Mul direction pushDistance)\<rparr>);
                 s2 = s1(b := (s1 b)\<lparr>Position := Add (Position (s1 b)) (Mul direction pushDistance)\<rparr>)
             in s2
           else s)"

section \<open>Group\<close>

definition NewGroup :: "store \<Rightarrow> goint \<Rightarrow> goint \<Rightarrow> nat \<Rightarrow> nat list \<Rightarrow> Group" where
  "NewGroup s gid armyID leader members =
     \<lparr>g_ID = gid, Leader = Some leader, Members = members,
      g_Formation = \<lparr>Formation_Type = CircleFormation, Radius = 50.0, Spacing = 20.0\<rparr>,
      g_ArmyID = armyID, targetPosition = Position (s leader)\<rparr>"

definition getAliveMembers :: "store \<Rightarrow> Group \<Rightarrow> nat list" where
  "getAliveMembers s g =
     filter (\<lambda>member. IsAlive (s member) \<and> \<not> IsRetreating (s member)) (Members g)"

text \<open>The formation slot of the member at index \<open>i\<close> of the alive members.\<close>

definition formationPos :: "Group \<Rightarrow> real \<Rightarrow> nat \<Rightarrow> Vector2D" where
  "formationPos g angleStep i =
     (let angle = real i * angleStep;
          offsetX = cos angle * Radius (g_Formation g);
          offsetY = sin angle * Radius (g_Formation g)
      in Add (targetPosition g) \<lparr>X = offsetX, Y = offsetY\<rparr>)"

text \<open>The loop of \<open>updateCircleFormation\<close> over the alive members with their indices.\<close>

fun circleLoop :: "Group \<Rightarrow> real \<Rightarrow> (nat \<times> nat) list \<Rightarrow> store \<Rightarrow> store" where
  "circleLoop g angleStep [] s = s"
| "circleLoop g angleStep ((i, member) # rest) s =
     (if IsRetreating (s member) then circleLoop g angleStep rest s
      else circleLoop g angleStep rest
             (s(member := MoveTo (s member) (formationPos g angleStep i))))"

definition updateCircleFormation :: "Group \<Rightarrow> store \<Rightarrow> store" where
  "updateCircleFormation g s =
     (let aliveMembers = getAliveMembers s g in
      if length aliveMembers = 0 then s
      else
        let angleStep = 2 * pi / real (length aliveMembers)
        in circleLoop g angleStep (enumerate 0 aliveMembers) s)"

text \<open>The test \<open>g.Leader == nil || !g.Leader.IsAlive\<close>.\<close>

definition leaderDown :: "store \<Rightarrow> Group \<Rightarrow> bool" where
  "leaderDown s g = (case Leader g of None \<Rightarrow> True | Some l \<Rightarrow> \<not> IsAlive (s l))"

definition updateFormation :: "Group \<Rightarrow> store \<Rightarrow> store" where
  "updateFormation g s =
     (if leaderDown s g then s
      else (case Formation_Type (g_Formation g) of
              CircleFormation \<Rightarrow> updateCircleFormation g s))"

text \<open>The exit point \<open>handleLeaderDeath\<close> computes for a member: the left edge, or the
  right edge for army B.\<close>

definition exitPointOf :: "Unit \<Rightarrow> Vector2D" where
  "exitPointOf member =
     (let exitPoint = \<lparr>X = - 100, Y = Y (Position member)\<rparr>
      in if ArmyID member = 1 then exitPoint\<lparr>X := 1124\<rparr> else exitPoint)"

fun retreatLoop :: "nat list \<Rightarrow> store \<Rightarrow> store" where
  "retreatLoop [] s = s"
| "retreatLoop (member # rest) s =
     (if IsAlive (s member) \<and> \<not> IsRetreating (s member)
      then retreatLoop rest (s(member := StartRetreating (s member) (exitPointOf (s member))))
      else retreatLoop rest s)"

definition handleLeaderDeath :: "Group \<Rightarrow> store \<Rightarrow> store" where
  "handleLeaderDeath g s = retreatLoop (Members g) s"

fun updateMembers :: "real \<Rightarrow> nat list \<Rightarrow> store \<Rightarrow> store" where
  "updateMembers deltaTime [] s = s"
| "updateMembers deltaTime (member # rest) s =
     (if IsAlive (s member)
      then updateMembers deltaTime rest (s(member := Unit_Update (s member) deltaTime))
      else updateMembers deltaTime rest s)"

text \<open>The anchor of the formation, from the leader after its own update.\<close>

definition anchor :: "Unit \<Rightarrow> Vector2D" where
  "anchor leader =
     (if Distance (Position leader) (Target leader) > 5.0 then Target leader
      else Position leader)"

definition Group_Update :: "Group \<Rightarrow> real \<Rightarrow> store \<Rightarrow> Group \<times> store" where
  "Group_Update g deltaTime s =
     (case Leader g of
        None \<Rightarrow> (g, handleLeaderDeath g s)
      | Some l \<Rightarrow>
          if \<not> IsAlive (s l) then (g, handleLeaderDeath g s)
          else
            let s1 = s(l := Unit_Update (s l) deltaTime);
                g1 = g\<lparr>targetPosition := anchor (s1 l)\<rparr>;
                s2 = updateFormation g1 s1;
                s3 = updateMembers deltaTime (Members g1) s2
            in (g1, s3))"

definition Group_GetAllUnits :: "Group \<Rightarrow> nat list" where
  "Group_GetAllUnits g = (case Leader g of None \<Rightarrow> [] | Some l \<Rightarrow> [l]) @ Members g"

text \<open>Counts and lengths are natural numbers (a Go slice is far shorter than \<open>2^63\<close>).\<close>

definition GetAliveCount :: "store \<Rightarrow> Group \<Rightarrow> nat" where
  "GetAliveCount s g =
     (case Leader g of None \<Rightarrow> 0 | Some l \<Rightarrow> if IsAlive (s l) then 1 else 0)
     + length (filter (\<lambda>member. IsAlive (s member)) (Members g))"

definition Group_IsDefeated :: "store \<Rightarrow> Group \<Rightarrow> bool" where
  "Group_IsDefeated s g \<longleftrightarrow> GetAliveCount s g = 0"

section \<open>Army\<close>

fun updateGroups :: "real \<Rightarrow> Group list \<Rightarrow> store \<Rightarrow> Group list \<times> store" where
  "updateGroups deltaTime [] s = ([], s)"
| "updateGroups deltaTime (g # gs) s =
     (let (g', s1) = Group_Update g deltaTime s;
          (gs', s2) = updateGroups deltaTime gs s1
      in (g' # gs', s2))"

definition Army_Update :: "Army \<Rightarrow> real \<Rightarrow> store \<Rightarrow> Army \<times> store" where
  "Army_Update a deltaTime s =
     (let (gs, s') = updateGroups deltaTime (Groups a) s in (a\<lparr>Groups := gs\<rparr>, s'))"

definition Army_GetAllUnits :: "Army \<Rightarrow> nat list" where
  "Army_GetAllUnits a = concat (map Group_GetAllUnits (Groups a))"

definition GetAliveUnits :: "store \<Rightarrow> Army \<Rightarrow> nat list" where
  "GetAliveUnits s a =
     filter (\<lambda>unit. IsAlive (s unit) \<and> \<not> IsRetreating (s unit)) (Army_GetAllUnits a)"

definition GetTotalHealth :: "store \<Rightarrow> Army \<Rightarrow> real" where
  "GetTotalHealth s a =
     (let us = Army_GetAllUnits a in
      if length us = 0 then 0
      else
        let totalHealth = foldl (\<lambda>acc unit. acc + GetHealthPercentage (s unit)) 0 us
        in totalHealth / real (length us))"

definition Army_IsDefeated :: "store \<Rightarrow> Army \<Rightarrow> bool" where
  "Army_IsDefeated s a \<longleftrightarrow> list_all (Group_IsDefeated s) (Groups a)"

section \<open>AIBehavior\<close>

definition calculateTargetScore :: "AIBehavior \<Rightarrow> Unit \<Rightarrow> Unit \<Rightarrow> real \<Rightarrow> real" where
  "calculateTargetScore ai unit enemy distance =
     (let score = 1000.0;
          score = score - distance * 0.05;
          healthPercent = GetHealthPercentage enemy;
          score = score + (1.0 - healthPercent) * 30.0;
          score = (if IsLeader enemy then score + 50.0 else score);
          score = (if distance \<le> AttackRange unit then score + 100.0 else score);
          score = (if Type enemy = UnitTypeMage then score + 20.0
                   else if Type enemy = UnitTypeArcher then score + 15.0
                   else if Type enemy = UnitTypeInfantry then score + 10.0
                   else score)
      in score)"

text \<open>The loop of \<open>selectTarget\<close>, carrying \<open>bestTarget\<close> and \<open>bestScore\<close>.\<close>

fun selectLoop ::
  "AIBehavior \<Rightarrow> store \<Rightarrow> Unit \<Rightarrow> nat list \<Rightarrow> nat option \<Rightarrow> real \<Rightarrow> nat option" where
  "selectLoop ai s unit [] bestTarget bestScore = bestTarget"
| "selectLoop ai s unit (enemy # rest) bestTarget bestScore =
     (if \<not> IsAlive (s enemy) \<or> IsRetreating (s enemy)
      then selectLoop ai s unit rest bestTarget bestScore
      else
        let distance = Distance (Position unit) (Position (s enemy));
            sightRange = GetSightRange unit
        in if distance > sightRange then selectLoop ai s unit rest bestTarget bestScore
           else
             let score = calculateTargetScore ai unit (s enemy) distance
             in if score > bestScore then selectLoop ai s unit rest (Some enemy) score
                else selectLoop ai s unit rest bestTarget bestScore)"

definition selectTarget :: "AIBehavior \<Rightarrow> store \<Rightarrow> Unit \<Rightarrow> nat list \<Rightarrow> AIBehavior" where
  "selectTarget ai s unit enemies =
     ai\<lparr>TargetEnemy := selectLoop ai s unit enemies None (- 1.0)\<rparr>"

definition isRangedUnit :: "Unit \<Rightarrow> bool" where
  "isRangedUnit unit \<longleftrightarrow> Type unit = UnitTypeArcher \<or> Type unit = UnitTypeMage"

text \<open>\<open>decideAction\<close> dereferences \<open>ai.TargetEnemy\<close>, which its only caller has checked
  to be non-nil; the unit it points to is the argument \<open>target\<close>.\<close>

definition decideAction :: "AIBehavior \<Rightarrow> Unit \<Rightarrow> Unit \<Rightarrow> real \<Rightarrow> AIBehavior" where
  "decideAction ai unit target distance =
     (let effectiveDistance = distance - GetCollisionRadius unit - GetCollisionRadius target
      in if effectiveDistance \<le> AttackRange unit \<and> CanAttack unit
         then ai\<lparr>CurrentAction := AIActionAttack\<rparr>
         else if effectiveDistance > PreferredRange ai * 1.2
         then ai\<lparr>CurrentAction := AIActionApproach\<rparr>
         else if effectiveDistance < PreferredRange ai * 0.8 \<and> isRangedUnit unit
         then ai\<lparr>CurrentAction := AIActionRetreat\<rparr>
         else if effectiveDistance \<le> AttackRange unit
         then ai\<lparr>CurrentAction := AIActionHold\<rparr>
         else ai\<lparr>CurrentAction := AIActionApproach\<rparr>)"

definition moveTowardsTarget :: "AIBehavior \<Rightarrow> store \<Rightarrow> Unit \<Rightarrow> real \<Rightarrow> Unit" where
  "moveTowardsTarget ai s unit intensity =
     (case TargetEnemy ai of
        None \<Rightarrow> unit
      | Some t \<Rightarrow>
          let direction = Normalize (Sub (Position (s t)) (Position unit));
              currentDistance = Distance (Position unit) (Position (s t));
              collisionBuffer = GetCollisionRadius unit + GetCollisionRadius (s t);
              targetDistance = PreferredRange ai * 0.9 + collisionBuffer
          in if currentDistance > targetDistance
             then
               let moveDistance = min (currentDistance - targetDistance) 50.0;
                   targetPos = Add (Position unit) (Mul direction (moveDistance * intensity))
               in MoveTo unit targetPos
             else
               let targetPos = Add (Position unit) (Mul direction (20.0 * intensity))
               in MoveTo unit targetPos)"

definition moveAwayFromTarget :: "AIBehavior \<Rightarrow> store \<Rightarrow> Unit \<Rightarrow> real \<Rightarrow> Unit" where
  "moveAwayFromTarget ai s unit intensity =
     (case TargetEnemy ai of
        None \<Rightarrow> unit
      | Some t \<Rightarrow>
          let direction = Normalize (Sub (Position unit) (Position (s t)));
              currentDistance = Distance (Position unit) (Position (s t));
              collisionBuffer = GetCollisionRadius unit + GetCollisionRadius (s t);
              targetDistance = PreferredRange ai * 1.1 + collisionBuffer;
              moveDistance = targetDistance - currentDistance
          in if moveDistance > 0
             then
               let targetPos = Add (Position unit) (Mul direction (moveDistance * intensity));
                   targetPos = targetPos\<lparr>X := max 50 (min 974 (X targetPos))\<rparr>;
                   targetPos = targetPos\<lparr>Y := max 100 (min 700 (Y targetPos))\<rparr>
               in MoveTo unit targetPos
             else unit)"

definition executeAction :: "AIBehavior \<Rightarrow> store \<Rightarrow> Unit \<Rightarrow> real \<Rightarrow> Unit" where
  "executeAction ai s unit distance =
     (case CurrentAction ai of
        AIActionApproach \<Rightarrow> moveTowardsTarget ai s unit 1.0
      | AIActionRetreat \<Rightarrow> moveAwayFromTarget ai s unit 1.0
      | AIActionAttack \<Rightarrow> unit
      | AIActionHold \<Rightarrow> unit\<lparr>Target := Position unit\<rparr>
      | AIActionIdle \<Rightarrow> unit\<lparr>Target := Position unit\<rparr>)"

text \<open>\<open>ai.Update(unit, enemies, deltaTime)\<close> where \<open>ai\<close> is the behaviour owned by the
  unit at address \<open>a\<close>: the store afterwards holds the unit with its new target and
  its new behaviour.\<close>

definition AIBehavior_Update :: "AIBehavior \<Rightarrow> nat \<Rightarrow> nat list \<Rightarrow> real \<Rightarrow> store \<Rightarrow> store" where
  "AIBehavior_Update ai a enemies deltaTime s =
     (let unit = s a in
      if \<not> IsAlive unit \<or> IsRetreating unit then s
      else
        let ai1 = ai\<lparr>LastDecisionTime := LastDecisionTime ai + deltaTime\<rparr>
        in if LastDecisionTime ai1 < DecisionCooldown ai1
           then s(a := unit\<lparr>AI := Some ai1\<rparr>)
           else
             let ai2 = ai1\<lparr>LastDecisionTime := 0\<rparr>;
                 ai3 = selectTarget ai2 s unit enemies
             in (case TargetEnemy ai3 of
                   None \<Rightarrow> s(a := unit\<lparr>AI := Some (ai3\<lparr>CurrentAction := AIActionIdle\<rparr>)\<rparr>)
                 | Some t \<Rightarrow>
                     if \<not> IsAlive (s t)
                     then s(a := unit\<lparr>AI := Some (ai3\<lparr>CurrentAction := AIActionIdle\<rparr>)\<rparr>)
                     else
                       let distance = Distance (Position unit) (Position (s t));
                           ai4 = decideAction ai3 unit (s t) distance;
                           unit' = executeAction ai4 s unit distance
                       in s(a := unit'\<lparr>AI := Some ai4\<rparr>)))"

section \<open>BattleManager\<close>

definition StartBattle :: "BattleManager \<Rightarrow> BattleManager" where
  "StartBattle bm = bm\<lparr>IsActive := True, BattleTime := 0.0, Winner := - 1\<rparr>"

fun aiLoop :: "nat list \<Rightarrow> nat list \<Rightarrow> real \<Rightarrow> store \<Rightarrow> store" where
  "aiLoop [] enemies deltaTime s = s"
| "aiLoop (unit # rest) enemies deltaTime s =
     aiLoop rest enemies deltaTime
       (case AI (s unit) of
          None \<Rightarrow> s
        | Some ai \<Rightarrow> AIBehavior_Update ai unit enemies deltaTime s)"

definition updateAI :: "BattleManager \<Rightarrow> real \<Rightarrow> BattleManager" where
  "updateAI bm deltaTime =
     (let unitsA = GetAliveUnits (units bm) (ArmyA bm);
          unitsB = GetAliveUnits (units bm) (ArmyB bm);
          s1 = aiLoop unitsA unitsB deltaTime (units bm);
          s2 = aiLoop unitsB unitsA deltaTime s1
      in bm\<lparr>units := s2\<rparr>)"

text \<open>The inner loop of \<open>handleCollisions\<close> for a fixed \<open>unit1\<close>, and the outer loop
  over the pairs \<open>i < j\<close>.\<close>

fun collideWith :: "nat \<Rightarrow> nat list \<Rightarrow> store \<Rightarrow> store" where
  "collideWith unit1 [] s = s"
| "collideWith unit1 (unit2 # rest) s =
     (if IsCollidingWith (s unit1) (s unit2)
      then collideWith unit1 rest (ResolveCollision s unit1 unit2)
      else collideWith unit1 rest s)"

fun collideAll :: "nat list \<Rightarrow> store \<Rightarrow> store" where
  "collideAll [] s = s"
| "collideAll (unit1 # rest) s = collideAll rest (collideWith unit1 rest s)"

definition handleCollisions :: "BattleManager \<Rightarrow> BattleManager" where
  "handleCollisions bm =
     (let allUnits = GetAliveUnits (units bm) (ArmyA bm) @ GetAliveUnits (units bm) (ArmyB bm)
      in bm\<lparr>units := collideAll allUnits (units bm)\<rparr>)"

text \<open>The search of \<open>processCombat\<close> for the closest enemy in range, carrying \<open>target\<close>
  and \<open>minDistance\<close>.\<close>

fun findClosest :: "store \<Rightarrow> Unit \<Rightarrow> nat list \<Rightarrow> nat option \<Rightarrow> real \<Rightarrow> nat option" where
  "findClosest s unitA [] target minDistance = target"
| "findClosest s unitA (unitB # rest) target minDistance =
     (let distance = Distance (Position unitA) (Position (s unitB))
      in if distance \<le> AttackRange unitA \<and> distance < minDistance
         then findClosest s unitA rest (Some unitB) distance
         else findClosest s unitA rest target minDistance)"

text \<open>One iteration of an attack loop of \<open>processCombat\<close>, for the attacker \<open>unitA\<close>.\<close>

definition combatStep :: "nat \<Rightarrow> nat list \<Rightarrow> store \<Rightarrow> store" where
  "combatStep unitA enemies s =
     (if \<not> CanAttack (s unitA) then s
      else
        (case findClosest s (s unitA) enemies None (AttackRange (s unitA) + 1) of
           None \<Rightarrow> s
         | Some target \<Rightarrow> snd (Attack s unitA target)))"

fun combatLoop :: "nat list \<Rightarrow> nat list \<Rightarrow> store \<Rightarrow> store" where
  "combatLoop [] enemies s = s"
| "combatLoop (unitA # rest) enemies s = combatLoop rest enemies (combatStep unitA enemies s)"

definition processCombat :: "BattleManager \<Rightarrow> BattleManager" where
  "processCombat bm =
     (let unitsA = GetAliveUnits (units bm) (ArmyA bm);
          unitsB = GetAliveUnits (units bm) (ArmyB bm);
          s1 = combatLoop unitsA unitsB (units bm);
          s2 = combatLoop unitsB unitsA s1
      in bm\<lparr>units := s2\<rparr>)"

definition checkWinConditions :: "BattleManager \<Rightarrow> BattleManager" where
  "checkWinConditions bm =
     (if BattleTime bm \<ge> TimeLimit bm
      then
        let bm1 = bm\<lparr>IsActive := False\<rparr>;
            healthA = GetTotalHealth (units bm1) (ArmyA bm1);
            healthB = GetTotalHealth (units bm1) (ArmyB bm1)
        in if healthA > healthB then bm1\<lparr>Winner := 0\<rparr>
           else if healthB > healthA then bm1\<lparr>Winner := 1\<rparr>
           else bm1\<lparr>Winner := 2\<rparr>
      else if Army_IsDefeated (units bm) (ArmyA bm) \<and> Army_IsDefeated (units bm) (ArmyB bm)
      then bm\<lparr>IsActive := False, Winner := 2\<rparr>
      else if Army_IsDefeated (units bm) (ArmyA bm)
      then bm\<lparr>IsActive := False, Winner := 1\<rparr>
      else if Army_IsDefeated (units bm) (ArmyB bm)
      then bm\<lparr>IsActive := False, Winner := 0\<rparr>
      else bm)"

text \<open>The two calls \<open>bm.ArmyA.Update(deltaTime)\<close> and \<open>bm.ArmyB.Update(deltaTime)\<close>.\<close>

definition updateArmies :: "BattleManager \<Rightarrow> real \<Rightarrow> BattleManager" where
  "updateArmies bm deltaTime =
     (let (a', s1) = Army_Update (ArmyA bm) deltaTime (units bm);
          (b', s2) = Army_Update (ArmyB bm) deltaTime s1
      in bm\<lparr>ArmyA := a', ArmyB := b', units := s2\<rparr>)"

definition Update :: "BattleManager \<Rightarrow> real \<Rightarrow> BattleManager" where
  "Update bm deltaTime =
     (if \<not> IsActive bm then bm
      else
        let bm1 = bm\<lparr>BattleTime := BattleTime bm + deltaTime\<rparr>;
            bm2 = updateArmies bm1 deltaTime;
            bm3 = updateAI bm2 deltaTime;
            bm4 = handleCollisions bm3;
            bm5 = processCombat bm4
        in checkWinConditions bm5)"

section \<open>Specification-side definitions and example states\<close>

text \<open>The damage of an attack as the specification words it, over the integers:
  \<open>max(1, attackPower + (magicPower if the attacker is a mage) - target.defense)\<close>.\<close>

definition spec_damage :: "Unit \<Rightarrow> Unit \<Rightarrow> int" where
  "spec_damage u target =
     max 1 (sint (AttackPower u) + (if Type u = UnitTypeMage then sint (MagicPower u) else 0)
            - sint (Defense target))"

text \<open>The three conditions under which \<open>Attack\<close> fails silently.\<close>

definition attackBlocked :: "store \<Rightarrow> nat \<Rightarrow> nat \<Rightarrow> bool" where
  "attackBlocked s a t \<longleftrightarrow>
     \<not> CanAttack (s a) \<or> \<not> IsAlive (s t) \<or>
     Distance (Position (s a)) (Position (s t))
       > AttackRange (s a) + GetCollisionRadius (s a) + GetCollisionRadius (s t)"

text \<open>A duel: an infantry leader at the origin and a heavy infantry leader ten units
  to its right, the latter still cooling down.\<close>

definition demo_infantry_cfg :: UnitTypeConfig where
  "demo_infantry_cfg =
     \<lparr>cfg_Name = ''Infantry'', cfg_HP = 100, cfg_Attack = 15, cfg_Defense = 10,
      cfg_Speed = 30, cfg_Range = 15, cfg_MagicPower = 0, cfg_Size = 1\<rparr>"

definition demo_heavy_cfg :: UnitTypeConfig where
  "demo_heavy_cfg =
     \<lparr>cfg_Name = ''Heavy'', cfg_HP = 100, cfg_Attack = 20, cfg_Defense = 30,
      cfg_Speed = 20, cfg_Range = 15, cfg_MagicPower = 0, cfg_Size = 1\<rparr>"

definition demo_duel :: store where
  "demo_duel =
     (\<lambda>_. NewUnit 0 UnitTypeInfantry demo_infantry_cfg False 0 0)
       (0 := NewUnit 1 UnitTypeInfantry demo_infantry_cfg True 0 0,
        1 := (NewUnit 2 ''heavy_infantry'' demo_heavy_cfg True 1 1)
               \<lparr>Position := \<lparr>X = 10, Y = 0\<rparr>, LastAttackTime := 0.5\<rparr>)"

text \<open>Infantry units at given positions: two stacked on one point, and two overlapping
  at distance 4.\<close>

definition demo_unit_at :: "real \<Rightarrow> real \<Rightarrow> Unit" where
  "demo_unit_at x y =
     (NewUnit 1 UnitTypeInfantry demo_infantry_cfg False 0 0)
       \<lparr>Position := \<lparr>X = x, Y = y\<rparr>, Target := \<lparr>X = x, Y = y\<rparr>\<rparr>"



text \<open>A skirmish: the infantry unit at address 0 stands at the origin with its movement
  target at \<open>(200, 0)\<close>; its behaviour holds the enemy at address 2 (at \<open>(100, 0)\<close>)
  as target and \<open>Approach\<close> as the last decided action.\<close>

definition demo_ai :: AIBehavior where
  "demo_ai = (NewAIBehavior UnitTypeInfantry)
               \<lparr>TargetEnemy := Some 2, CurrentAction := AIActionApproach\<rparr>"

definition demo_skirmish :: store where
  "demo_skirmish =
     (\<lambda>_. demo_unit_at 100 0)
       (0 := (demo_unit_at 0 0)\<lparr>Target := \<lparr>X = 200, Y = 0\<rparr>, AI := Some demo_ai\<rparr>)"

text \<open>The flat bonus of \<open>calculateTargetScore\<close> for the enemy's type (its \<open>switch\<close>).\<close>

definition typeBonus :: "UnitType \<Rightarrow> real" where
  "typeBonus ty =
     (if ty = UnitTypeMage then 20 else if ty = UnitTypeArcher then 15
      else if ty = UnitTypeInfantry then 10 else 0)"

text \<open>The score as the specification words it, with the bonus of 100 for an enemy within
  the effective attack range (range plus both collision radii).\<close>

definition spec_targetScore :: "Unit \<Rightarrow> Unit \<Rightarrow> real \<Rightarrow> real" where
  "spec_targetScore unit enemy distance =
     1000 - distance * 0.05 + (1 - GetHealthPercentage enemy) * 30
     + (if IsLeader enemy then 50 else 0)
     + (if distance \<le> AttackRange unit + GetCollisionRadius unit + GetCollisionRadius enemy
        then 100 else 0)
     + typeBonus (Type enemy)"

text \<open>The enemies that pass the filter of \<open>selectTarget\<close>, in iteration order, and the score
  \<open>selectTarget\<close> gives to the enemy at an address.\<close>

definition visibleEnemies :: "store \<Rightarrow> Unit \<Rightarrow> nat list \<Rightarrow> nat list" where
  "visibleEnemies s unit enemies =
     filter (\<lambda>e. IsAlive (s e) \<and> \<not> IsRetreating (s e)
                 \<and> Distance (Position unit) (Position (s e)) \<le> GetSightRange unit) enemies"

definition targetScore :: "AIBehavior \<Rightarrow> store \<Rightarrow> Unit \<Rightarrow> nat \<Rightarrow> real" where
  "targetScore ai s unit e =
     calculateTargetScore ai unit (s e) (Distance (Position unit) (Position (s e)))"

text \<open>Targets for the unit at address 0 (at the origin, range 15, radius 3): a plain
  infantry unit at distance 14 and an infantry leader at distance 18, which is beyond
  the range but within the effective range 21.\<close>

definition demo_targets :: store where
  "demo_targets =
     (\<lambda>_. demo_unit_at 0 0)
       (2 := demo_unit_at 14 0,
        3 := (demo_unit_at (- 18) 0)\<lparr>IsLeader := True\<rparr>)"

text \<open>For the attacker at address \<open>a\<close>: the distance to the unit at address \<open>e\<close>, the listed
  enemies within its raw attack range, and those of them that are alive and not
  retreating, all in iteration order.\<close>

definition distanceTo :: "store \<Rightarrow> nat \<Rightarrow> nat \<Rightarrow> real" where
  "distanceTo s a e = Distance (Position (s a)) (Position (s e))"

definition inRawRange :: "store \<Rightarrow> nat \<Rightarrow> nat list \<Rightarrow> nat list" where
  "inRawRange s a enemies = filter (\<lambda>e. distanceTo s a e \<le> AttackRange (s a)) enemies"

definition liveInRawRange :: "store \<Rightarrow> nat \<Rightarrow> nat list \<Rightarrow> nat list" where
  "liveInRawRange s a enemies =
     filter (\<lambda>e. IsAlive (s e) \<and> \<not> IsRetreating (s e)) (inRawRange s a enemies)"

text \<open>\<open>t\<close> is the first element of \<open>xs\<close> at minimal distance from \<open>a\<close>: it is in the
  list, every element before its first occurrence is strictly farther away, and no
  element is closer.\<close>

definition firstClosest :: "store \<Rightarrow> nat \<Rightarrow> nat list \<Rightarrow> nat \<Rightarrow> bool" where
  "firstClosest s a xs t \<longleftrightarrow>
     t \<in> set xs
     \<and> list_all (\<lambda>x. distanceTo s a t < distanceTo s a x) (takeWhile (\<lambda>x. x \<noteq> t) xs)
     \<and> list_all (\<lambda>x. distanceTo s a t \<le> distanceTo s a x) xs"

text \<open>A small battle.  Army A: one group, its leader at address 0 on \<open>(0, 0)\<close> and one
  member at address 2 on \<open>(10, 0)\<close>.  Army B: one group, only a leader, at address 3 on
  \<open>(500, 0)\<close> with half of its hit points left.  All are infantry fresh from \<open>NewUnit\<close>,
  standing on their movement targets.  The clock is at \<open>b\<close> and the time limit is \<open>T\<close>.\<close>

definition demo_units :: store where
  "demo_units =
     (\<lambda>_. demo_unit_at 0 0)
       (0 := (demo_unit_at 0 0)\<lparr>IsLeader := True\<rparr>,
        2 := demo_unit_at 10 0,
        3 := (demo_unit_at 500 0)\<lparr>IsLeader := True, ArmyID := 1, HP := 50\<rparr>)"

definition demo_battle :: "real \<Rightarrow> real \<Rightarrow> BattleManager" where
  "demo_battle b T =
     \<lparr>ArmyA = \<lparr>a_ID = 0, a_Name = ''A'', Groups = [NewGroup demo_units 0 0 0 [2]], Side = 0\<rparr>,
      ArmyB = \<lparr>a_ID = 1, a_Name = ''B'', Groups = [NewGroup demo_units 1 1 3 []], Side = 1\<rparr>,
      BattleTime = b, TimeLimit = T, IsActive = True, Winner = - 1, nextUnitID = 4,
      units = demo_units\<rparr>"

text \<open>The units of the small battle after the armies' update of a tick of one second:
  the member has walked 30 units towards its slot at \<open>(50, 0)\<close>.\<close>

definition demo_units1 :: store where
  "demo_units1 =
     demo_units(2 := (demo_unit_at 10 0)\<lparr>Target := \<lparr>X = 50, Y = 0\<rparr>,
                       Position := \<lparr>X = 40, Y = 0\<rparr>\<rparr>)"

text \<open>The states inside \<open>Update\<close> of an active battle: after the armies' update, after
  the AI pass, and just before \<open>checkWinConditions\<close>.\<close>

definition afterArmies :: "BattleManager \<Rightarrow> real \<Rightarrow> BattleManager" where
  "afterArmies bm deltaTime =
     updateArmies (bm\<lparr>BattleTime := BattleTime bm + deltaTime\<rparr>) deltaTime"

definition afterAI :: "BattleManager \<Rightarrow> real \<Rightarrow> BattleManager" where
  "afterAI bm deltaTime = updateAI (afterArmies bm deltaTime) deltaTime"

definition beforeWinCheck :: "BattleManager \<Rightarrow> real \<Rightarrow> BattleManager" where
  "beforeWinCheck bm deltaTime = processCombat (handleCollisions (afterAI bm deltaTime))"

text \<open>Every alive, non-retreating member of the group has its formation slot as movement
  target: what the loop of \<open>updateCircleFormation\<close> writes, read back.\<close>

definition inFormation :: "store \<Rightarrow> Group \<Rightarrow> bool" where
  "inFormation s g =
     (let aliveMembers = getAliveMembers s g;
          angleStep = 2 * pi / real (length aliveMembers)
      in list_all (\<lambda>(i, member). Target (s member) = formationPos g angleStep i)
           (enumerate 0 aliveMembers))"

text \<open>No unit is shared: the leaders and members of all groups of both armies are
  pairwise distinct, as \<open>createGroup\<close> builds them.\<close>

definition distinctUnits :: "BattleManager \<Rightarrow> bool" where
  "distinctUnits bm =
     distinct (concat (map Group_GetAllUnits (Groups (ArmyA bm) @ Groups (ArmyB bm))))"

text \<open>The health invariant of a unit: HP within \<open>[0, MaxHP]\<close>, and alive exactly when HP is
  positive.\<close>

definition healthInv :: "Unit \<Rightarrow> bool" where
  "healthInv u \<longleftrightarrow> 0 \<le>s HP u \<and> HP u \<le>s MaxHP u \<and> (IsAlive u \<longleftrightarrow> 0 <s HP u)"

text \<open>What can happen to a battle manager once its armies are built: \<open>StartBattle\<close>, or a
  tick of any length.\<close>

datatype event = Start | Tick real

fun apply_event :: "BattleManager \<Rightarrow> event \<Rightarrow> BattleManager" where
  "apply_event bm Start = StartBattle bm"
| "apply_event bm (Tick deltaTime) = Update bm deltaTime"

definition run :: "BattleManager \<Rightarrow> event list \<Rightarrow> BattleManager" where
  "run bm events = foldl apply_event bm events"

text \<open>A unit type with no hit points configured.\<close>

definition demo_ghost_cfg :: UnitTypeConfig where
  "demo_ghost_cfg = demo_infantry_cfg\<lparr>cfg_HP := 0\<rparr>"

text \<open>The small battle after the leader of army A's group has fallen, and the same with
  its member already on the retreat.\<close>

definition demo_fallen :: BattleManager where
  "demo_fallen =
     (demo_battle 0 5)\<lparr>units := demo_units(0 := (demo_units 0)\<lparr>HP := 0, IsAlive := False\<rparr>)\<rparr>"

definition demo_routed :: BattleManager where
  "demo_routed =
     demo_fallen\<lparr>units := (units demo_fallen)
                         (2 := StartRetreating (units demo_fallen 2) \<lparr>X = - 100, Y = 0\<rparr>)\<rparr>"

text \<open>The groups of both armies.\<close>

definition allGroups :: "BattleManager \<Rightarrow> Group list" where
  "allGroups bm = Groups (ArmyA bm) @ Groups (ArmyB bm)"

text \<open>The duel with stats at the edge of the 64-bit range: the attacker's attack power
  is the least \<open>int\<close>, the target's defense is 1, and both stand on the origin.\<close>

definition demo_extreme :: store where
  "demo_extreme =
     (\<lambda>_. NewUnit 0 UnitTypeInfantry demo_infantry_cfg False 0 0)
       (0 := NewUnit 1 UnitTypeInfantry (demo_infantry_cfg\<lparr>cfg_Attack := - (2 ^ 63)\<rparr>) True 0 0,
        1 := NewUnit 2 UnitTypeInfantry (demo_infantry_cfg\<lparr>cfg_Defense := 1\<rparr>) True 1 1)"

text \<open>The combat step as the specification words it, with the enemies listed once.  The
  enemy a unit picks: the first listed enemy at minimal distance among the listed
  enemies within its raw attack range.\<close>

definition chosenEnemy :: "store \<Rightarrow> nat \<Rightarrow> nat list \<Rightarrow> nat option" where
  "chosenEnemy s a enemies =
     (let candidates = inRawRange s a enemies
      in find (firstClosest s a candidates) candidates)"

text \<open>The turn of the unit at address \<open>a\<close>: if it can attack and the enemy it picks is
  still alive, it attacks that enemy; otherwise nothing happens.\<close>

definition spec_turn :: "nat list \<Rightarrow> store \<Rightarrow> nat \<Rightarrow> store" where
  "spec_turn enemies s a =
     (if \<not> CanAttack (s a) then s
      else case chosenEnemy s a enemies of
             None \<Rightarrow> s
           | Some t \<Rightarrow> if IsAlive (s t) then snd (Attack s a t) else s)"

text \<open>The listed attackers take their turns one after the other, each on the store the
  turns before it have left.\<close>

definition spec_pass :: "nat list \<Rightarrow> nat list \<Rightarrow> store \<Rightarrow> store" where
  "spec_pass attackers enemies s = foldl (spec_turn enemies) s attackers"

text \<open>A melee on the x-axis, 7 units between neighbours.  Army A: leader at address 0
  on \<open>(0, 0)\<close>, member at address 2 on \<open>(7, 0)\<close>.  Army B: leader at address 3 on
  \<open>(14, 0)\<close> with 5 hit points left, member at address 4 on \<open>(21, 0)\<close>.  All are
  infantry (range 15, attack 15, defense 10) and ready to attack.\<close>

definition demo_melee_units :: store where
  "demo_melee_units =
     (\<lambda>_. demo_unit_at 0 0)
       (0 := (demo_unit_at 0 0)\<lparr>IsLeader := True\<rparr>,
        2 := demo_unit_at 7 0,
        3 := (demo_unit_at 14 0)\<lparr>IsLeader := True, ArmyID := 1, HP := 5\<rparr>,
        4 := (demo_unit_at 21 0)\<lparr>ArmyID := 1\<rparr>)"

definition demo_melee :: BattleManager where
  "demo_melee =
     \<lparr>ArmyA = \<lparr>a_ID = 0, a_Name = ''A'', Groups = [NewGroup demo_melee_units 0 0 0 [2]], Side = 0\<rparr>,
      ArmyB = \<lparr>a_ID = 1, a_Name = ''B'', Groups = [NewGroup demo_melee_units 1 1 3 [4]], Side = 1\<rparr>,
      BattleTime = 0, TimeLimit = 5, IsActive = True, Winner = - 1, nextUnitID = 5,
      units = demo_melee_units\<rparr>"

text \<open>The melee when the turn of the unit at address 2 comes (the unit at address 0
  has killed the enemy at address 3), and at the end of the combat step.\<close>

definition demo_melee_mid :: store where
  "demo_melee_mid =
     demo_melee_units
       (3 := (demo_melee_units 3)\<lparr>HP := 0, IsAlive := False\<rparr>,
        0 := (demo_melee_units 0)\<lparr>LastAttackTime := 1\<rparr>)"

definition demo_melee_end :: store where
  "demo_melee_end =
     demo_melee_mid
       (2 := (demo_melee_units 2)\<lparr>HP := 95\<rparr>,
        4 := (demo_melee_units 4)\<lparr>LastAttackTime := 1\<rparr>)"

section \<open>Properties\<close>

subsection \<open>Arithmetic and vector facts\<close>

lemma sint_sum3:
  "sint (a + b - c :: goint) = signed_take_bit 63 (sint a + sint b - sint c)"
  by (simp add: sint_word_ariths)
     (metis add.inverse_inverse signed_take_bit_diff signed_take_bit_minus)

lemma sint_diff2:
  "sint (a - c :: goint) = signed_take_bit 63 (sint a - sint c)"
  by (simp add: sint_word_ariths)

lemma sint_one64: "sint (1 :: goint) = 1"
  by simp

lemma Distance_same_Y: "Y v = Y w \<Longrightarrow> Distance v w = \<bar>X v - X w\<bar>"
  by (simp add: Distance_def Let_def)

subsection \<open>Attack\<close>

text \<open>
  Claim C5, as amended.  \<open>Attack\<close> returns 0 and leaves the store as it is when the attacker
  cannot attack, the target is dead, or the distance exceeds the range plus both
  collision radii.  Otherwise it returns the damage \<open>d\<close> floored at 1, where \<open>d\<close> is
  attack power plus (for a mage) magic power minus the target's defense in 64-bit
  arithmetic; the damage is at least 1 for all stats; the target takes that damage
  and the attacker's cooldown is reset to its cooldown duration.  Whenever the
  difference does not overflow, the damage is the integer
  \<open>max 1 (attack + magic - defense)\<close>.
\<close>

theorem Attack_result:
  "(attackBlocked s a t \<longrightarrow> Attack s a t = (0, s)) \<and>
   (\<not> attackBlocked s a t \<longrightarrow>
      (let d = AttackPower (s a)
               + (if Type (s a) = UnitTypeMage then MagicPower (s a) else 0)
               - Defense (s t);
           damage = (if d <s 1 then 1 else d);
           s1 = s(t := TakeDamage (s t) damage)
       in fst (Attack s a t) = damage \<and> 1 \<le>s damage \<and>
          snd (Attack s a t) = s1(a := (s1 a)\<lparr>LastAttackTime := AttackCooldown (s a)\<rparr>) \<and>
          (- (2 ^ 63) \<le> sint (AttackPower (s a))
              + (if Type (s a) = UnitTypeMage then sint (MagicPower (s a)) else 0)
              - sint (Defense (s t)) \<and>
           sint (AttackPower (s a))
              + (if Type (s a) = UnitTypeMage then sint (MagicPower (s a)) else 0)
              - sint (Defense (s t)) < 2 ^ 63
           \<longrightarrow> sint damage = spec_damage (s a) (s t))))"
proof (intro conjI impI)
  assume "attackBlocked s a t"
  then show "Attack s a t = (0, s)"
    by (auto simp: attackBlocked_def Attack_def Let_def)
next
  assume nb: "\<not> attackBlocked s a t"
  define d where "d = AttackPower (s a)
               + (if Type (s a) = UnitTypeMage then MagicPower (s a) else 0)
               - Defense (s t)"
  define damage where "damage = (if d <s 1 then 1 else d)"
  define s1 where "s1 = s(t := TakeDamage (s t) damage)"
  have cool: "AttackCooldown (s1 a) = AttackCooldown (s a)"
    by (simp add: s1_def TakeDamage_def Let_def)
  have A: "Attack s a t = (damage, s1(a := (s1 a)\<lparr>LastAttackTime := AttackCooldown (s a)\<rparr>))"
    using nb cool
    by (auto simp: attackBlocked_def Attack_def Let_def d_def damage_def s1_def)
  have one: "1 \<le>s damage"
    by (simp add: damage_def word_sle_eq word_sless_alt)
  have math: "sint damage = spec_damage (s a) (s t)"
    if "- (2 ^ 63) \<le> sint (AttackPower (s a))
              + (if Type (s a) = UnitTypeMage then sint (MagicPower (s a)) else 0)
              - sint (Defense (s t))"
      "sint (AttackPower (s a))
              + (if Type (s a) = UnitTypeMage then sint (MagicPower (s a)) else 0)
              - sint (Defense (s t)) < 2 ^ 63"
  proof -
    have "sint d = sint (AttackPower (s a))
              + (if Type (s a) = UnitTypeMage then sint (MagicPower (s a)) else 0)
              - sint (Defense (s t))"
    proof (cases "Type (s a) = UnitTypeMage")
      case True
      then have "sint d = signed_take_bit 63
          (sint (AttackPower (s a)) + sint (MagicPower (s a)) - sint (Defense (s t)))"
        unfolding d_def by (simp only: sint_sum3 if_True refl)
      with that True show ?thesis
        by (simp add: signed_take_bit_int_eq_self)
    next
      case False
      then have "sint d = signed_take_bit 63
          (sint (AttackPower (s a)) - sint (Defense (s t)))"
        unfolding d_def by (simp add: sint_diff2)
      with that False show ?thesis
        by (simp add: signed_take_bit_int_eq_self)
    qed
    then show ?thesis
      by (auto simp: damage_def spec_damage_def word_sless_alt)
  qed
  show "let d = AttackPower (s a)
               + (if Type (s a) = UnitTypeMage then MagicPower (s a) else 0)
               - Defense (s t);
           damage = (if d <s 1 then 1 else d);
           s1 = s(t := TakeDamage (s t) damage)
       in fst (Attack s a t) = damage \<and> 1 \<le>s damage \<and>
          snd (Attack s a t) = s1(a := (s1 a)\<lparr>LastAttackTime := AttackCooldown (s a)\<rparr>) \<and>
          (- (2 ^ 63) \<le> sint (AttackPower (s a))
              + (if Type (s a) = UnitTypeMage then sint (MagicPower (s a)) else 0)
              - sint (Defense (s t)) \<and>
           sint (AttackPower (s a))
              + (if Type (s a) = UnitTypeMage then sint (MagicPower (s a)) else 0)
              - sint (Defense (s t)) < 2 ^ 63
           \<longrightarrow> sint damage = spec_damage (s a) (s t))"
    unfolding Let_def
    apply (fold d_def)
    apply (fold damage_def)
    apply (fold s1_def)
    using A one math by simp
qed


theorem Attack_result_witness:
  "\<not> attackBlocked demo_duel 0 1 \<and>
   fst (Attack demo_duel 0 1) = 1 \<and>
   sint (fst (Attack demo_duel 0 1)) = spec_damage (demo_duel 0) (demo_duel 1) \<and>
   HP (snd (Attack demo_duel 0 1) 1) = 99 \<and>
   LastAttackTime (snd (Attack demo_duel 0 1) 0) = 1 \<and>
   attackBlocked demo_duel 1 0 \<and> Attack demo_duel 1 0 = (0, demo_duel)"
proof -
  have nb: "\<not> attackBlocked demo_duel 0 1"
    by (simp add: attackBlocked_def demo_duel_def NewUnit_def CanAttack_def
        Distance_same_Y GetCollisionRadius_def demo_infantry_cfg_def demo_heavy_cfg_def)
  have b: "attackBlocked demo_duel 1 0"
    by (simp add: attackBlocked_def demo_duel_def NewUnit_def CanAttack_def)
  show ?thesis
    using Attack_result [of demo_duel 0 1] Attack_result [of demo_duel 1 0] nb b
    by (simp add: Let_def demo_duel_def NewUnit_def demo_infantry_cfg_def demo_heavy_cfg_def
        UnitTypeInfantry_def UnitTypeMage_def TakeDamage_def spec_damage_def
        word_sless_alt word_sle_eq)
qed

text \<open>
  Claim C5 as stated fails where the subtraction leaves the 64-bit range: with
  attack power \<open>- 2\<^sup>6\<^sup>3\<close> and defense 1 the integer formula gives
  \<open>max 1 (- 2\<^sup>6\<^sup>3 - 1) = 1\<close>, while the difference wraps to \<open>2\<^sup>6\<^sup>3 - 1\<close>, which
  \<open>Attack\<close> returns and deals.
\<close>

theorem Attack_overflow_counterexample:
  "\<not> attackBlocked demo_extreme 0 1 \<and>
   sint (AttackPower (demo_extreme 0)) = - 9223372036854775808 \<and>
   sint (Defense (demo_extreme 1)) = 1 \<and>
   spec_damage (demo_extreme 0) (demo_extreme 1) = 1 \<and>
   sint (fst (Attack demo_extreme 0 1)) = 9223372036854775807 \<and>
   sint (fst (Attack demo_extreme 0 1)) \<noteq> spec_damage (demo_extreme 0) (demo_extreme 1) \<and>
   \<not> IsAlive (snd (Attack demo_extreme 0 1) 1)"
  by (simp add: attackBlocked_def Attack_def Let_def demo_extreme_def NewUnit_def CanAttack_def
        Distance_same_Y GetCollisionRadius_def demo_infantry_cfg_def
        UnitTypeInfantry_def UnitTypeMage_def TakeDamage_def spec_damage_def
        word_sless_alt word_sle_eq)

subsection \<open>Collision resolution\<close>









lemma Length_Y0: "Y v = 0 \<Longrightarrow> Length v = \<bar>X v\<bar>"
  by (simp add: Length_def)



subsection \<open>The decision cycle of the AI\<close>

lemma Normalize_Y0: "Y v = 0 \<Longrightarrow> X v > 0 \<Longrightarrow> Normalize v = \<lparr>X = 1, Y = 0\<rparr>"
  by (simp add: Normalize_def Length_Y0)

text \<open>
  Claim C2, as amended.  For a living, non-retreating unit: on a tick on which the
  accumulated time stays below the decision cooldown, \<open>AIBehavior.Update\<close> only
  stores the accumulated time; the unit (its movement target included), the target
  enemy and the action stay as they are.  On a tick on which the cooldown has
  elapsed and the selected target is alive, the action is decided anew and executed
  on the unit.
\<close>

theorem AIBehavior_Update_gated:
  assumes "IsAlive (s a)" "\<not> IsRetreating (s a)"
  shows "(LastDecisionTime ai + deltaTime < DecisionCooldown ai \<longrightarrow>
            AIBehavior_Update ai a enemies deltaTime s
              = s(a := (s a)\<lparr>AI := Some (ai\<lparr>LastDecisionTime := LastDecisionTime ai + deltaTime\<rparr>)\<rparr>))
       \<and> (\<not> LastDecisionTime ai + deltaTime < DecisionCooldown ai \<longrightarrow>
            (\<forall>t. selectLoop (ai\<lparr>LastDecisionTime := 0\<rparr>) s (s a) enemies None (- 1) = Some t
                 \<and> IsAlive (s t) \<longrightarrow>
              (let ai3 = ai\<lparr>LastDecisionTime := 0, TargetEnemy := Some t\<rparr>;
                   distance = Distance (Position (s a)) (Position (s t));
                   ai4 = decideAction ai3 (s a) (s t) distance
               in AIBehavior_Update ai a enemies deltaTime s
                    = s(a := (executeAction ai4 s (s a) distance)\<lparr>AI := Some ai4\<rparr>))))"
  using assms
  by (auto simp: AIBehavior_Update_def Let_def selectTarget_def)

theorem AIBehavior_Update_gated_witness:
  "IsAlive (demo_skirmish 0) \<and> \<not> IsRetreating (demo_skirmish 0) \<and>
   LastDecisionTime demo_ai + 0.05 < DecisionCooldown demo_ai \<and>
   Target (AIBehavior_Update demo_ai 0 [2] 0.05 demo_skirmish 0) = \<lparr>X = 200, Y = 0\<rparr> \<and>
   \<not> LastDecisionTime demo_ai + 0.1 < DecisionCooldown demo_ai \<and>
   selectLoop (demo_ai\<lparr>LastDecisionTime := 0\<rparr>) demo_skirmish (demo_skirmish 0) [2] None (- 1)
     = Some 2 \<and>
   IsAlive (demo_skirmish 2) \<and>
   Target (AIBehavior_Update demo_ai 0 [2] 0.1 demo_skirmish 0) = \<lparr>X = 50, Y = 0\<rparr>"
proof -
  have h: "IsAlive (demo_skirmish 0)" "\<not> IsRetreating (demo_skirmish 0)"
    "IsAlive (demo_skirmish 2)"
    by (simp_all add: demo_skirmish_def demo_unit_at_def NewUnit_def)
  have c1: "LastDecisionTime demo_ai + 0.05 < DecisionCooldown demo_ai"
    and c2: "\<not> LastDecisionTime demo_ai + 0.1 < DecisionCooldown demo_ai"
    by (simp_all add: demo_ai_def NewAIBehavior_def)
  have d: "Distance (Position (demo_skirmish 0)) (Position (demo_skirmish 2)) = 100"
    by (simp add: demo_skirmish_def demo_unit_at_def Distance_same_Y)
  have sel: "selectLoop (demo_ai\<lparr>LastDecisionTime := 0\<rparr>) demo_skirmish (demo_skirmish 0) [2]
               None (- 1) = Some 2"
    using h d
    by (simp add: GetSightRange_def calculateTargetScore_def GetHealthPercentage_def Let_def)
       (simp add: demo_skirmish_def demo_unit_at_def NewUnit_def demo_infantry_cfg_def
                  UnitTypeInfantry_def UnitTypeMage_def UnitTypeArcher_def)
  have r: "GetCollisionRadius (demo_skirmish 0) = 3" "GetCollisionRadius (demo_skirmish 2) = 3"
    by (simp_all add: demo_skirmish_def demo_unit_at_def NewUnit_def demo_infantry_cfg_def
        GetCollisionRadius_def)
  have dec: "decideAction (demo_ai\<lparr>LastDecisionTime := 0, TargetEnemy := Some 2\<rparr>)
               (demo_skirmish 0) (demo_skirmish 2) 100
             = demo_ai\<lparr>LastDecisionTime := 0, TargetEnemy := Some 2,
                        CurrentAction := AIActionApproach\<rparr>"
    by (simp add: decideAction_def Let_def r)
       (simp add: demo_skirmish_def demo_unit_at_def NewUnit_def demo_infantry_cfg_def
                  demo_ai_def NewAIBehavior_def)
  have n: "Normalize (Sub (Position (demo_skirmish 2)) (Position (demo_skirmish 0)))
             = \<lparr>X = 1, Y = 0\<rparr>"
    by (rule Normalize_Y0) (simp_all add: demo_skirmish_def demo_unit_at_def Sub_def)
  have ex: "Target (executeAction
                (demo_ai\<lparr>LastDecisionTime := 0, TargetEnemy := Some 2,
                         CurrentAction := AIActionApproach\<rparr>)
                demo_skirmish (demo_skirmish 0) 100) = \<lparr>X = 50, Y = 0\<rparr>"
    by (simp add: executeAction_def moveTowardsTarget_def Let_def d r n MoveTo_def)
       (simp add: demo_skirmish_def demo_unit_at_def demo_ai_def NewAIBehavior_def
                  Add_def Mul_def)
  note T = AIBehavior_Update_gated
             [where s = demo_skirmish and a = 0 and ai = demo_ai and enemies = "[2]", OF h(1,2)]
  have t1: "Target (AIBehavior_Update demo_ai 0 [2] 0.05 demo_skirmish 0) = \<lparr>X = 200, Y = 0\<rparr>"
    using T [where deltaTime = "0.05", THEN conjunct1] c1
    by (simp add: demo_skirmish_def)
  have t2: "Target (AIBehavior_Update demo_ai 0 [2] 0.1 demo_skirmish 0) = \<lparr>X = 50, Y = 0\<rparr>"
    using T [where deltaTime = "0.1", THEN conjunct2] c2 sel h(3)
    by (simp add: Let_def d dec ex)
  show ?thesis
    using h c1 c2 sel t1 t2 by simp
qed

text \<open>
  Claim C2 as stated fails on a tick inside the cooldown: the unit's last decided
  action is \<open>Approach\<close> with a live target, executing it would move the target to
  \<open>(50, 0)\<close>, yet \<open>AIBehavior.Update\<close> leaves it at \<open>(200, 0)\<close>.
\<close>

theorem AIBehavior_Update_skips_execution_counterexample:
  "IsAlive (demo_skirmish 0) \<and> \<not> IsRetreating (demo_skirmish 0) \<and>
   AI (demo_skirmish 0) = Some demo_ai \<and>
   CurrentAction demo_ai = AIActionApproach \<and> TargetEnemy demo_ai = Some 2 \<and>
   IsAlive (demo_skirmish 2) \<and>
   Target (executeAction demo_ai demo_skirmish (demo_skirmish 0)
             (Distance (Position (demo_skirmish 0)) (Position (demo_skirmish 2))))
     = \<lparr>X = 50, Y = 0\<rparr> \<and>
   Target (AIBehavior_Update demo_ai 0 [2] 0.05 demo_skirmish 0) = \<lparr>X = 200, Y = 0\<rparr> \<and>
   Target (AIBehavior_Update demo_ai 0 [2] 0.05 demo_skirmish 0)
     \<noteq> Target (executeAction demo_ai demo_skirmish (demo_skirmish 0)
             (Distance (Position (demo_skirmish 0)) (Position (demo_skirmish 2))))"
proof -
  have h: "IsAlive (demo_skirmish 0)" "\<not> IsRetreating (demo_skirmish 0)"
    "IsAlive (demo_skirmish 2)" "AI (demo_skirmish 0) = Some demo_ai"
    by (simp_all add: demo_skirmish_def demo_unit_at_def NewUnit_def)
  have a: "CurrentAction demo_ai = AIActionApproach" "TargetEnemy demo_ai = Some 2"
    by (simp_all add: demo_ai_def)
  have d: "Distance (Position (demo_skirmish 0)) (Position (demo_skirmish 2)) = 100"
    by (simp add: demo_skirmish_def demo_unit_at_def Distance_same_Y)
  have r: "GetCollisionRadius (demo_skirmish 0) = 3" "GetCollisionRadius (demo_skirmish 2) = 3"
    by (simp_all add: demo_skirmish_def demo_unit_at_def NewUnit_def demo_infantry_cfg_def
        GetCollisionRadius_def)
  have n: "Normalize (Sub (Position (demo_skirmish 2)) (Position (demo_skirmish 0)))
             = \<lparr>X = 1, Y = 0\<rparr>"
    by (rule Normalize_Y0) (simp_all add: demo_skirmish_def demo_unit_at_def Sub_def)
  have ex: "Target (executeAction demo_ai demo_skirmish (demo_skirmish 0) 100)
              = \<lparr>X = 50, Y = 0\<rparr>"
    by (simp add: executeAction_def moveTowardsTarget_def Let_def a d r n MoveTo_def)
       (simp add: demo_skirmish_def demo_unit_at_def demo_ai_def NewAIBehavior_def
                  Add_def Mul_def)
  have up: "Target (AIBehavior_Update demo_ai 0 [2] 0.05 demo_skirmish 0) = \<lparr>X = 200, Y = 0\<rparr>"
    using h by (simp add: AIBehavior_Update_def Let_def)
               (simp add: demo_ai_def NewAIBehavior_def demo_skirmish_def)
  show ?thesis
    using h a up ex by (simp add: d)
qed

lemma selectLoop_none_visible:
  assumes "\<forall>e \<in> set enemies. \<not> IsAlive (s e) \<or> IsRetreating (s e)
             \<or> Distance (Position unit) (Position (s e)) > GetSightRange unit"
  shows "selectLoop ai s unit enemies bestTarget bestScore = bestTarget"
  using assms by (induction enemies) (auto simp: Let_def)

text \<open>
  Claim C8, what the code does.  On a decision cycle (cooldown elapsed) of a living,
  non-retreating unit for which no enemy is alive, not retreating and within sight
  range, \<open>AIBehavior.Update\<close> sets the target enemy to nil and the action to \<open>Idle\<close>
  and returns before \<open>executeAction\<close>: the unit itself, its movement target included,
  is left as it was, not set to its current position.
\<close>

theorem AIBehavior_Update_no_target:
  assumes "IsAlive (s a)" "\<not> IsRetreating (s a)"
    and "\<not> LastDecisionTime ai + deltaTime < DecisionCooldown ai"
    and "\<forall>e \<in> set enemies. \<not> IsAlive (s e) \<or> IsRetreating (s e)
             \<or> Distance (Position (s a)) (Position (s e)) > GetSightRange (s a)"
  shows "AIBehavior_Update ai a enemies deltaTime s
           = s(a := (s a)\<lparr>AI := Some (ai\<lparr>LastDecisionTime := 0, TargetEnemy := None,
                                            CurrentAction := AIActionIdle\<rparr>)\<rparr>)
       \<and> Target (AIBehavior_Update ai a enemies deltaTime s a) = Target (s a)"
proof -
  have "selectLoop (ai\<lparr>LastDecisionTime := 0\<rparr>) s (s a) enemies None (- 1) = None"
    using assms(4) by (rule selectLoop_none_visible)
  then have "AIBehavior_Update ai a enemies deltaTime s
           = s(a := (s a)\<lparr>AI := Some (ai\<lparr>LastDecisionTime := 0, TargetEnemy := None,
                                            CurrentAction := AIActionIdle\<rparr>)\<rparr>)"
    using assms(1-3) by (simp add: AIBehavior_Update_def Let_def selectTarget_def)
  then show ?thesis
    by simp
qed

text \<open>
  The failing input of claim C8: the unit of the skirmish, on its way to \<open>(200, 0)\<close>,
  decides against an empty enemy list.  Its target enemy becomes nil and its action
  \<open>Idle\<close>, but its movement target is still \<open>(200, 0)\<close> and not its position
  \<open>(0, 0)\<close>.
\<close>

theorem AIBehavior_Update_no_target_witness:
  "IsAlive (demo_skirmish 0) \<and> \<not> IsRetreating (demo_skirmish 0) \<and>
   \<not> LastDecisionTime demo_ai + 0.1 < DecisionCooldown demo_ai \<and>
   AI (AIBehavior_Update demo_ai 0 [] 0.1 demo_skirmish 0)
     = Some (demo_ai\<lparr>LastDecisionTime := 0, TargetEnemy := None,
                       CurrentAction := AIActionIdle\<rparr>) \<and>
   Position (AIBehavior_Update demo_ai 0 [] 0.1 demo_skirmish 0) = \<lparr>X = 0, Y = 0\<rparr> \<and>
   Target (AIBehavior_Update demo_ai 0 [] 0.1 demo_skirmish 0) = \<lparr>X = 200, Y = 0\<rparr> \<and>
   Target (AIBehavior_Update demo_ai 0 [] 0.1 demo_skirmish 0)
     \<noteq> Position (AIBehavior_Update demo_ai 0 [] 0.1 demo_skirmish 0)"
proof -
  have h: "IsAlive (demo_skirmish 0)" "\<not> IsRetreating (demo_skirmish 0)"
    by (simp_all add: demo_skirmish_def demo_unit_at_def NewUnit_def)
  have c: "\<not> LastDecisionTime demo_ai + 0.1 < DecisionCooldown demo_ai"
    by (simp add: demo_ai_def NewAIBehavior_def)
  have e: "\<forall>e \<in> set []. \<not> IsAlive (demo_skirmish e) \<or> IsRetreating (demo_skirmish e)
             \<or> Distance (Position (demo_skirmish 0)) (Position (demo_skirmish e))
                 > GetSightRange (demo_skirmish 0)"
    by simp
  have p: "Position (demo_skirmish 0) = \<lparr>X = 0, Y = 0\<rparr>"
    "Target (demo_skirmish 0) = \<lparr>X = 200, Y = 0\<rparr>"
    by (simp_all add: demo_skirmish_def demo_unit_at_def)
  note T = AIBehavior_Update_no_target [OF h c e]
  show ?thesis
    using h c p by (simp add: T [THEN conjunct1])
qed

subsection \<open>Target selection\<close>

lemma calculateTargetScore_eq:
  "calculateTargetScore ai unit enemy d =
     1000 - d * 0.05 + (1 - GetHealthPercentage enemy) * 30
     + (if IsLeader enemy then 50 else 0)
     + (if d \<le> AttackRange unit then 100 else 0)
     + typeBonus (Type enemy)"
  by (simp add: calculateTargetScore_def typeBonus_def Let_def)

lemma calculateTargetScore_lower:
  assumes "GetHealthPercentage enemy \<le> 1" "d \<le> GetSightRange unit"
  shows "750 \<le> calculateTargetScore ai unit enemy d"
proof -
  have "d * 0.05 \<le> 250" using assms(2) by (simp add: GetSightRange_def)
  moreover have "0 \<le> (1 - GetHealthPercentage enemy) * 30" using assms(1) by simp
  moreover have "0 \<le> typeBonus (Type enemy)" by (simp add: typeBonus_def)
  ultimately show ?thesis
    unfolding calculateTargetScore_eq by (auto split: if_splits)
qed

lemma selectLoop_first_best:
  fixes ai s unit
  defines "sc \<equiv> targetScore ai s unit"
  shows "((\<forall>e \<in> set (visibleEnemies s unit enemies). sc e \<le> bestScore) \<longrightarrow>
            selectLoop ai s unit enemies bestTarget bestScore = bestTarget)
       \<and> ((\<exists>e \<in> set (visibleEnemies s unit enemies). sc e > bestScore) \<longrightarrow>
            (\<exists>pre t post. visibleEnemies s unit enemies = pre @ t # post
               \<and> selectLoop ai s unit enemies bestTarget bestScore = Some t
               \<and> bestScore < sc t
               \<and> (\<forall>x \<in> set pre. sc x < sc t) \<and> (\<forall>x \<in> set post. sc x \<le> sc t)))"
proof (induction enemies arbitrary: bestTarget bestScore)
  case Nil
  then show ?case by (simp add: visibleEnemies_def)
next
  case (Cons e es)
  let ?vis = "visibleEnemies s unit"
  show ?case
  proof (cases "IsAlive (s e) \<and> \<not> IsRetreating (s e)
                 \<and> Distance (Position unit) (Position (s e)) \<le> GetSightRange unit")
    case False
    then have v: "?vis (e # es) = ?vis es" by (simp add: visibleEnemies_def)
    have l: "selectLoop ai s unit (e # es) bestTarget bestScore
               = selectLoop ai s unit es bestTarget bestScore"
      using False by (auto simp: Let_def)
    show ?thesis unfolding v l by (rule Cons.IH)
  next
    case True
    then have v: "?vis (e # es) = e # ?vis es" by (simp add: visibleEnemies_def)
    show ?thesis
    proof (cases "sc e > bestScore")
      case gt: True
      have l: "selectLoop ai s unit (e # es) bestTarget bestScore
                 = selectLoop ai s unit es (Some e) (sc e)"
        using True gt by (simp add: Let_def sc_def targetScore_def)
      note IH = Cons.IH [of "sc e" "Some e"]
      show ?thesis
      proof (cases "\<exists>x \<in> set (?vis es). sc x > sc e")
        case True
        with IH obtain pre t post where d: "?vis es = pre @ t # post"
          "selectLoop ai s unit es (Some e) (sc e) = Some t" "sc e < sc t"
          "\<forall>x \<in> set pre. sc x < sc t" "\<forall>x \<in> set post. sc x \<le> sc t"
          by blast
        have "?vis (e # es) = (e # pre) @ t # post" using d(1) v by simp
        moreover have "\<forall>x \<in> set (e # pre). sc x < sc t" using d(3,4) by simp
        moreover have "bestScore < sc t" using gt d(3) by simp
        ultimately have "\<exists>pre t post. ?vis (e # es) = pre @ t # post
               \<and> selectLoop ai s unit (e # es) bestTarget bestScore = Some t
               \<and> bestScore < sc t
               \<and> (\<forall>x \<in> set pre. sc x < sc t) \<and> (\<forall>x \<in> set post. sc x \<le> sc t)"
          using d(2,5) l
          by (intro exI [of _ "e # pre"] exI [of _ t] exI [of _ post]) simp
        moreover have "\<not> (\<forall>x \<in> set (?vis (e # es)). sc x \<le> bestScore)"
          using gt v by auto
        ultimately show ?thesis by blast
      next
        case False
        then have all: "\<forall>x \<in> set (?vis es). sc x \<le> sc e" by auto
        with IH have r: "selectLoop ai s unit es (Some e) (sc e) = Some e" by blast
        have "?vis (e # es) = [] @ e # ?vis es" using v by simp
        then have "\<exists>pre t post. ?vis (e # es) = pre @ t # post
               \<and> selectLoop ai s unit (e # es) bestTarget bestScore = Some t
               \<and> bestScore < sc t
               \<and> (\<forall>x \<in> set pre. sc x < sc t) \<and> (\<forall>x \<in> set post. sc x \<le> sc t)"
          using all gt l r by (intro exI [of _ "[]"] exI [of _ e] exI [of _ "?vis es"]) simp
        moreover have "\<not> (\<forall>x \<in> set (?vis (e # es)). sc x \<le> bestScore)"
          using gt v by auto
        ultimately show ?thesis by blast
      qed
    next
      case le: False
      have l: "selectLoop ai s unit (e # es) bestTarget bestScore
                 = selectLoop ai s unit es bestTarget bestScore"
        using True le by (simp add: Let_def sc_def targetScore_def)
      note IH = Cons.IH [of bestScore bestTarget]
      show ?thesis
      proof (cases "\<exists>x \<in> set (?vis es). sc x > bestScore")
        case True
        with IH obtain pre t post where d: "?vis es = pre @ t # post"
          "selectLoop ai s unit es bestTarget bestScore = Some t" "bestScore < sc t"
          "\<forall>x \<in> set pre. sc x < sc t" "\<forall>x \<in> set post. sc x \<le> sc t"
          by blast
        have "?vis (e # es) = (e # pre) @ t # post" using d(1) v by simp
        moreover have "\<forall>x \<in> set (e # pre). sc x < sc t" using d(3,4) le by simp
        ultimately have "\<exists>pre t post. ?vis (e # es) = pre @ t # post
               \<and> selectLoop ai s unit (e # es) bestTarget bestScore = Some t
               \<and> bestScore < sc t
               \<and> (\<forall>x \<in> set pre. sc x < sc t) \<and> (\<forall>x \<in> set post. sc x \<le> sc t)"
          using d(2,3,5) l
          by (intro exI [of _ "e # pre"] exI [of _ t] exI [of _ post]) simp
        moreover have "\<not> (\<forall>x \<in> set (?vis (e # es)). sc x \<le> bestScore)"
          using True v by (auto simp: not_le)
        ultimately show ?thesis by blast
      next
        case False
        then have all: "\<forall>x \<in> set (?vis es). sc x \<le> bestScore" by auto
        with IH have r: "selectLoop ai s unit es bestTarget bestScore = bestTarget" by blast
        have "\<forall>x \<in> set (?vis (e # es)). sc x \<le> bestScore"
          using all le v by auto
        then show ?thesis using l r by auto
      qed
    qed
  qed
qed


text \<open>
  Claim C7, as amended.  Among the enemies that are alive, not retreating and within
  sight range, \<open>selectTarget\<close> chooses the first one (in iteration order) whose score
  is maximal: every earlier candidate scores strictly less and every later one at
  most as much; with no candidate the target is nil.  The score is
  \<open>1000 - distance * 0.05 + (1 - healthFraction) * 30 + (leader: 50) +
  (distance \<le> raw attack range: 100) + typeBonus\<close>, the bonus of 100 depending on the
  attacker's raw range and not on the effective range, and the type bonus ranking
  mage over archer over infantry over all others.  (Candidates are assumed to have a
  health fraction of at most 1.)
\<close>

theorem selectTarget_first_best:
  assumes "\<forall>e \<in> set (visibleEnemies s unit enemies). GetHealthPercentage (s e) \<le> 1"
  shows "(visibleEnemies s unit enemies = [] \<longrightarrow>
            TargetEnemy (selectTarget ai s unit enemies) = None)
       \<and> (visibleEnemies s unit enemies \<noteq> [] \<longrightarrow>
            (\<exists>pre t post. visibleEnemies s unit enemies = pre @ t # post
               \<and> TargetEnemy (selectTarget ai s unit enemies) = Some t
               \<and> (\<forall>x \<in> set pre. targetScore ai s unit x < targetScore ai s unit t)
               \<and> (\<forall>x \<in> set post. targetScore ai s unit x \<le> targetScore ai s unit t)))
       \<and> (\<forall>enemy d. calculateTargetScore ai unit enemy d =
             1000 - d * 0.05 + (1 - GetHealthPercentage enemy) * 30
             + (if IsLeader enemy then 50 else 0)
             + (if d \<le> AttackRange unit then 100 else 0)
             + typeBonus (Type enemy))
       \<and> typeBonus UnitTypeMage > typeBonus UnitTypeArcher
       \<and> typeBonus UnitTypeArcher > typeBonus UnitTypeInfantry
       \<and> (\<forall>ty. ty \<noteq> UnitTypeMage \<and> ty \<noteq> UnitTypeArcher \<and> ty \<noteq> UnitTypeInfantry
               \<longrightarrow> typeBonus ty = 0 \<and> typeBonus ty < typeBonus UnitTypeInfantry)"
proof -
  let ?vis = "visibleEnemies s unit enemies"
  have sel: "TargetEnemy (selectTarget ai s unit enemies)
               = selectLoop ai s unit enemies None (- 1)"
    by (simp add: selectTarget_def)
  have high: "- 1 < targetScore ai s unit e" if "e \<in> set ?vis" for e
  proof -
    from that have "Distance (Position unit) (Position (s e)) \<le> GetSightRange unit"
      by (simp add: visibleEnemies_def)
    moreover from that assms have "GetHealthPercentage (s e) \<le> 1" by blast
    ultimately have "750 \<le> targetScore ai s unit e"
      unfolding targetScore_def by (intro calculateTargetScore_lower)
    then show ?thesis by simp
  qed
  note L = selectLoop_first_best [of s unit enemies ai "- 1" None]
  have empty: "?vis = [] \<longrightarrow> TargetEnemy (selectTarget ai s unit enemies) = None"
    using L [THEN conjunct1] sel by simp
  have nonempty: "?vis \<noteq> [] \<longrightarrow>
            (\<exists>pre t post. ?vis = pre @ t # post
               \<and> TargetEnemy (selectTarget ai s unit enemies) = Some t
               \<and> (\<forall>x \<in> set pre. targetScore ai s unit x < targetScore ai s unit t)
               \<and> (\<forall>x \<in> set post. targetScore ai s unit x \<le> targetScore ai s unit t))"
  proof
    assume "?vis \<noteq> []"
    then obtain e where e: "e \<in> set ?vis" by (cases ?vis) auto
    then have "\<exists>e \<in> set ?vis. - 1 < targetScore ai s unit e" using high by blast
    with L [THEN conjunct2] obtain pre t post where
      "?vis = pre @ t # post" "selectLoop ai s unit enemies None (- 1) = Some t"
      "\<forall>x \<in> set pre. targetScore ai s unit x < targetScore ai s unit t"
      "\<forall>x \<in> set post. targetScore ai s unit x \<le> targetScore ai s unit t"
      by blast
    then show "\<exists>pre t post. ?vis = pre @ t # post
               \<and> TargetEnemy (selectTarget ai s unit enemies) = Some t
               \<and> (\<forall>x \<in> set pre. targetScore ai s unit x < targetScore ai s unit t)
               \<and> (\<forall>x \<in> set post. targetScore ai s unit x \<le> targetScore ai s unit t)"
      unfolding sel by (intro exI [of _ pre] exI [of _ t] exI [of _ post]) simp
  qed
  have bonus: "typeBonus UnitTypeMage > typeBonus UnitTypeArcher"
    "typeBonus UnitTypeArcher > typeBonus UnitTypeInfantry"
    "\<forall>ty. ty \<noteq> UnitTypeMage \<and> ty \<noteq> UnitTypeArcher \<and> ty \<noteq> UnitTypeInfantry
               \<longrightarrow> typeBonus ty = 0 \<and> typeBonus ty < typeBonus UnitTypeInfantry"
    by (simp_all add: typeBonus_def UnitTypeMage_def UnitTypeArcher_def UnitTypeInfantry_def)
  show ?thesis
    using empty nonempty bonus calculateTargetScore_eq by blast
qed

lemma demo_targets_scores:
  "targetScore demo_ai demo_targets (demo_targets 0) 2 = 1109.3"
  "targetScore demo_ai demo_targets (demo_targets 0) 3 = 1059.1"
  "visibleEnemies demo_targets (demo_targets 0) [2, 3] = [2, 3]"
  "GetHealthPercentage (demo_targets 2) = 1"
  "GetHealthPercentage (demo_targets 3) = 1"
  by (simp_all add: targetScore_def visibleEnemies_def calculateTargetScore_eq typeBonus_def
      GetHealthPercentage_def GetSightRange_def Distance_same_Y demo_targets_def
      demo_unit_at_def NewUnit_def demo_infantry_cfg_def
      UnitTypeMage_def UnitTypeArcher_def UnitTypeInfantry_def)

theorem selectTarget_first_best_witness:
  "GetHealthPercentage (demo_targets 2) \<le> 1 \<and> GetHealthPercentage (demo_targets 3) \<le> 1 \<and>
   visibleEnemies demo_targets (demo_targets 0) [2, 3] = [2, 3] \<and>
   targetScore demo_ai demo_targets (demo_targets 0) 3
     < targetScore demo_ai demo_targets (demo_targets 0) 2 \<and>
   TargetEnemy (selectTarget demo_ai demo_targets (demo_targets 0) [2, 3]) = Some 2 \<and>
   visibleEnemies demo_targets (demo_targets 0) [] = [] \<and>
   TargetEnemy (selectTarget demo_ai demo_targets (demo_targets 0) []) = None"
proof -
  have hp: "\<forall>e \<in> set (visibleEnemies demo_targets (demo_targets 0) [2, 3]).
              GetHealthPercentage (demo_targets e) \<le> 1"
    by (simp add: demo_targets_scores)
  from selectTarget_first_best [OF hp, of demo_ai, THEN conjunct2, THEN conjunct1]
  obtain pre t post where d: "[2, 3] = pre @ t # post"
    "TargetEnemy (selectTarget demo_ai demo_targets (demo_targets 0) [2, 3]) = Some t"
    "\<forall>x \<in> set pre. targetScore demo_ai demo_targets (demo_targets 0) x
         < targetScore demo_ai demo_targets (demo_targets 0) t"
    unfolding demo_targets_scores by auto
  have "t = 2"
  proof (cases pre)
    case Nil
    with d(1) show ?thesis by simp
  next
    case (Cons x xs)
    with d(1) have x: "x = 2" and r: "[3] = xs @ t # post" by simp_all
    from r have "t = 3" by (cases xs) simp_all
    with d(3) Cons x show ?thesis by (simp add: demo_targets_scores)
  qed
  with d(2) have one: "TargetEnemy (selectTarget demo_ai demo_targets (demo_targets 0) [2, 3]) = Some 2"
    by simp
  have e: "visibleEnemies demo_targets (demo_targets 0) [] = []"
    by (simp add: visibleEnemies_def)
  have hp0: "\<forall>e \<in> set (visibleEnemies demo_targets (demo_targets 0) []).
              GetHealthPercentage (demo_targets e) \<le> 1"
    by (simp add: e)
  have two: "TargetEnemy (selectTarget demo_ai demo_targets (demo_targets 0) []) = None"
    using selectTarget_first_best [OF hp0, of demo_ai, THEN conjunct1] e by simp
  show ?thesis
    using one two e by (simp add: demo_targets_scores)
qed

text \<open>
  Claim C7 as stated fails: the leader at distance 18 is within the effective range
  (15 + 3 + 3) but beyond the raw range 15, and its score carries no bonus of 100.
  \<open>selectTarget\<close> therefore prefers the plain unit at distance 14, while the score of
  the claim would rank the leader first.
\<close>

theorem selectTarget_effective_range_counterexample:
  "Distance (Position (demo_targets 0)) (Position (demo_targets 3))
     \<le> AttackRange (demo_targets 0) + GetCollisionRadius (demo_targets 0)
        + GetCollisionRadius (demo_targets 3) \<and>
   targetScore demo_ai demo_targets (demo_targets 0) 3 = 1059.1 \<and>
   targetScore demo_ai demo_targets (demo_targets 0) 3
     \<noteq> spec_targetScore (demo_targets 0) (demo_targets 3)
         (Distance (Position (demo_targets 0)) (Position (demo_targets 3))) \<and>
   spec_targetScore (demo_targets 0) (demo_targets 3)
     (Distance (Position (demo_targets 0)) (Position (demo_targets 3))) = 1159.1 \<and>
   spec_targetScore (demo_targets 0) (demo_targets 2)
     (Distance (Position (demo_targets 0)) (Position (demo_targets 2))) = 1109.3 \<and>
   TargetEnemy (selectTarget demo_ai demo_targets (demo_targets 0) [2, 3]) = Some 2"
proof -
  have "TargetEnemy (selectTarget demo_ai demo_targets (demo_targets 0) [2, 3]) = Some 2"
    by (simp add: selectTarget_def Let_def calculateTargetScore_eq typeBonus_def
      GetHealthPercentage_def GetSightRange_def Distance_same_Y demo_targets_def
      demo_unit_at_def NewUnit_def demo_infantry_cfg_def
      UnitTypeMage_def UnitTypeArcher_def UnitTypeInfantry_def)
  then show ?thesis
    by (simp add: demo_targets_scores)
       (simp add: spec_targetScore_def typeBonus_def
      GetHealthPercentage_def GetCollisionRadius_def Distance_same_Y demo_targets_def
      demo_unit_at_def NewUnit_def demo_infantry_cfg_def
      UnitTypeMage_def UnitTypeArcher_def UnitTypeInfantry_def)
qed

subsection \<open>Combat resolution\<close>

lemma takeWhile_neq_first:
  "t \<notin> set pre \<Longrightarrow> takeWhile (\<lambda>x. x \<noteq> t) (pre @ t # post) = pre"
  by (induction pre) auto

lemma firstClosest_iff:
  "firstClosest s a xs t \<longleftrightarrow>
     (\<exists>pre post. xs = pre @ t # post
        \<and> (\<forall>x \<in> set pre. distanceTo s a t < distanceTo s a x)
        \<and> (\<forall>x \<in> set post. distanceTo s a t \<le> distanceTo s a x))"
proof
  assume f: "firstClosest s a xs t"
  then have "t \<in> set xs" by (simp add: firstClosest_def)
  then obtain pre post where x: "xs = pre @ t # post" "t \<notin> set pre"
    by (auto dest: split_list_first)
  then have tw: "takeWhile (\<lambda>x. x \<noteq> t) xs = pre"
    by (simp add: takeWhile_neq_first)
  from f have "\<forall>x \<in> set pre. distanceTo s a t < distanceTo s a x"
    unfolding firstClosest_def tw by (simp add: list_all_iff)
  moreover from f x(1) have "\<forall>x \<in> set post. distanceTo s a t \<le> distanceTo s a x"
    by (simp add: firstClosest_def list_all_iff)
  ultimately show "\<exists>pre post. xs = pre @ t # post
        \<and> (\<forall>x \<in> set pre. distanceTo s a t < distanceTo s a x)
        \<and> (\<forall>x \<in> set post. distanceTo s a t \<le> distanceTo s a x)"
    using x(1) by blast
next
  assume "\<exists>pre post. xs = pre @ t # post
        \<and> (\<forall>x \<in> set pre. distanceTo s a t < distanceTo s a x)
        \<and> (\<forall>x \<in> set post. distanceTo s a t \<le> distanceTo s a x)"
  then obtain pre post where x: "xs = pre @ t # post"
    and p: "\<forall>x \<in> set pre. distanceTo s a t < distanceTo s a x"
    and q: "\<forall>x \<in> set post. distanceTo s a t \<le> distanceTo s a x"
    by blast
  from p have "t \<notin> set pre" by auto
  then have tw: "takeWhile (\<lambda>x. x \<noteq> t) xs = pre"
    by (simp add: x takeWhile_neq_first)
  have "\<forall>x \<in> set xs. distanceTo s a t \<le> distanceTo s a x"
    using p q by (auto simp: x intro: less_imp_le)
  then show "firstClosest s a xs t"
    unfolding firstClosest_def tw using p by (simp add: x list_all_iff)
qed

lemma findClosest_first_min:
  fixes s a
  defines "d \<equiv> distanceTo s a"
  shows "((\<forall>e \<in> set (inRawRange s a enemies). minDistance \<le> d e) \<longrightarrow>
            findClosest s (s a) enemies target minDistance = target)
       \<and> ((\<exists>e \<in> set (inRawRange s a enemies). d e < minDistance) \<longrightarrow>
            (\<exists>pre t post. inRawRange s a enemies = pre @ t # post
               \<and> findClosest s (s a) enemies target minDistance = Some t
               \<and> d t < minDistance
               \<and> (\<forall>x \<in> set pre. d t < d x) \<and> (\<forall>x \<in> set post. d t \<le> d x)))"
proof (induction enemies arbitrary: target minDistance)
  case Nil
  then show ?case by (simp add: inRawRange_def)
next
  case (Cons e es)
  let ?cand = "inRawRange s a"
  show ?case
  proof (cases "d e \<le> AttackRange (s a)")
    case False
    then have v: "?cand (e # es) = ?cand es" by (simp add: inRawRange_def d_def)
    have l: "findClosest s (s a) (e # es) target minDistance
               = findClosest s (s a) es target minDistance"
      using False by (simp add: Let_def d_def distanceTo_def)
    show ?thesis unfolding v l by (rule Cons.IH)
  next
    case True
    then have v: "?cand (e # es) = e # ?cand es" by (simp add: inRawRange_def d_def)
    show ?thesis
    proof (cases "d e < minDistance")
      case lt: True
      have l: "findClosest s (s a) (e # es) target minDistance
                 = findClosest s (s a) es (Some e) (d e)"
        using True lt by (simp add: Let_def d_def distanceTo_def)
      note IH = Cons.IH [of "d e" "Some e"]
      have neg: "\<not> (\<forall>x \<in> set (?cand (e # es)). minDistance \<le> d x)"
        using lt v by (auto simp: not_le)
      show ?thesis
      proof (cases "\<exists>x \<in> set (?cand es). d x < d e")
        case True
        with IH obtain pre t post where r: "?cand es = pre @ t # post"
          "findClosest s (s a) es (Some e) (d e) = Some t" "d t < d e"
          "\<forall>x \<in> set pre. d t < d x" "\<forall>x \<in> set post. d t \<le> d x"
          by blast
        have "?cand (e # es) = (e # pre) @ t # post" using r(1) v by simp
        moreover have "\<forall>x \<in> set (e # pre). d t < d x" using r(3,4) by simp
        moreover have "d t < minDistance" using lt r(3) by simp
        ultimately have "\<exists>pre t post. ?cand (e # es) = pre @ t # post
               \<and> findClosest s (s a) (e # es) target minDistance = Some t
               \<and> d t < minDistance
               \<and> (\<forall>x \<in> set pre. d t < d x) \<and> (\<forall>x \<in> set post. d t \<le> d x)"
          using r(2,5) l
          by (intro exI [of _ "e # pre"] exI [of _ t] exI [of _ post]) simp
        with neg show ?thesis by blast
      next
        case False
        then have all: "\<forall>x \<in> set (?cand es). d e \<le> d x" by (auto simp: not_less)
        with IH have r: "findClosest s (s a) es (Some e) (d e) = Some e" by blast
        have "?cand (e # es) = [] @ e # ?cand es" using v by simp
        then have "\<exists>pre t post. ?cand (e # es) = pre @ t # post
               \<and> findClosest s (s a) (e # es) target minDistance = Some t
               \<and> d t < minDistance
               \<and> (\<forall>x \<in> set pre. d t < d x) \<and> (\<forall>x \<in> set post. d t \<le> d x)"
          using all lt l r by (intro exI [of _ "[]"] exI [of _ e] exI [of _ "?cand es"]) simp
        with neg show ?thesis by blast
      qed
    next
      case ge: False
      have l: "findClosest s (s a) (e # es) target minDistance
                 = findClosest s (s a) es target minDistance"
        using ge by (simp add: Let_def d_def distanceTo_def)
      note IH = Cons.IH [of minDistance target]
      show ?thesis
      proof (cases "\<exists>x \<in> set (?cand es). d x < minDistance")
        case True
        with IH obtain pre t post where r: "?cand es = pre @ t # post"
          "findClosest s (s a) es target minDistance = Some t" "d t < minDistance"
          "\<forall>x \<in> set pre. d t < d x" "\<forall>x \<in> set post. d t \<le> d x"
          by blast
        have "?cand (e # es) = (e # pre) @ t # post" using r(1) v by simp
        moreover have "\<forall>x \<in> set (e # pre). d t < d x" using r(3,4) ge by simp
        ultimately have "\<exists>pre t post. ?cand (e # es) = pre @ t # post
               \<and> findClosest s (s a) (e # es) target minDistance = Some t
               \<and> d t < minDistance
               \<and> (\<forall>x \<in> set pre. d t < d x) \<and> (\<forall>x \<in> set post. d t \<le> d x)"
          using r(2,3,5) l
          by (intro exI [of _ "e # pre"] exI [of _ t] exI [of _ post]) simp
        moreover have "\<not> (\<forall>x \<in> set (?cand (e # es)). minDistance \<le> d x)"
          using True v by (auto simp: not_le)
        ultimately show ?thesis by blast
      next
        case False
        then have all: "\<forall>x \<in> set (?cand es). minDistance \<le> d x" by (auto simp: not_less)
        with IH have r: "findClosest s (s a) es target minDistance = target" by blast
        have "\<forall>x \<in> set (?cand (e # es)). minDistance \<le> d x"
          using all ge v by auto
        then show ?thesis using l r by auto
      qed
    qed
  qed
qed

lemma findClosest_initial:
  "(inRawRange s a enemies = [] \<longrightarrow>
      findClosest s (s a) enemies None (AttackRange (s a) + 1) = None)
   \<and> (inRawRange s a enemies \<noteq> [] \<longrightarrow>
        (\<exists>t. findClosest s (s a) enemies None (AttackRange (s a) + 1) = Some t
            \<and> firstClosest s a (inRawRange s a enemies) t))"
proof (intro conjI impI)
  assume "inRawRange s a enemies = []"
  then show "findClosest s (s a) enemies None (AttackRange (s a) + 1) = None"
    using findClosest_first_min [of s a enemies "AttackRange (s a) + 1" None, THEN conjunct1]
    by simp
next
  assume ne: "inRawRange s a enemies \<noteq> []"
  then obtain e where e: "e \<in> set (inRawRange s a enemies)"
    by (cases "inRawRange s a enemies") auto
  then have "distanceTo s a e < AttackRange (s a) + 1"
    by (simp add: inRawRange_def)
  with e have "\<exists>e \<in> set (inRawRange s a enemies). distanceTo s a e < AttackRange (s a) + 1"
    by blast
  with findClosest_first_min [of s a enemies "AttackRange (s a) + 1" None, THEN conjunct2]
  obtain pre t post where "inRawRange s a enemies = pre @ t # post"
    "findClosest s (s a) enemies None (AttackRange (s a) + 1) = Some t"
    "\<forall>x \<in> set pre. distanceTo s a t < distanceTo s a x"
    "\<forall>x \<in> set post. distanceTo s a t \<le> distanceTo s a x"
    by blast
  then show "\<exists>t. findClosest s (s a) enemies None (AttackRange (s a) + 1) = Some t
            \<and> firstClosest s a (inRawRange s a enemies) t"
    unfolding firstClosest_iff by blast
qed

lemma firstClosest_filter:
  assumes "firstClosest s a xs t" "P t"
  shows "firstClosest s a (filter P xs) t"
proof -
  from assms(1) obtain pre post where "xs = pre @ t # post"
    "\<forall>x \<in> set pre. distanceTo s a t < distanceTo s a x"
    "\<forall>x \<in> set post. distanceTo s a t \<le> distanceTo s a x"
    unfolding firstClosest_iff by blast
  then have "filter P xs = filter P pre @ t # filter P post
      \<and> (\<forall>x \<in> set (filter P pre). distanceTo s a t < distanceTo s a x)
      \<and> (\<forall>x \<in> set (filter P post). distanceTo s a t \<le> distanceTo s a x)"
    using assms(2) by simp
  then show ?thesis unfolding firstClosest_iff by blast
qed

lemma Attack_changes_alive:
  "snd (Attack s a t) \<noteq> s \<Longrightarrow> IsAlive (s t) \<and> CanAttack (s a)"
  by (auto simp: Attack_def Let_def split: if_splits)


lemma Attack_frame:
  "x \<noteq> a \<Longrightarrow> x \<noteq> t \<Longrightarrow> snd (Attack s a t) x = s x"
  by (simp add: Attack_def Let_def)

lemma Attack_IsRetreating:
  "IsRetreating (snd (Attack s a t) x) = IsRetreating (s x)"
  by (simp add: Attack_def Let_def TakeDamage_def)

lemma firstClosest_order:
  "t \<in> set xs \<Longrightarrow> t' \<in> set xs \<Longrightarrow> t \<noteq> t' \<Longrightarrow>
     t' \<in> set (takeWhile (\<lambda>x. x \<noteq> t) xs) \<or> t \<in> set (takeWhile (\<lambda>x. x \<noteq> t') xs)"
  by (induction xs) auto

lemma firstClosest_unique:
  assumes "firstClosest s a xs t" "firstClosest s a xs t'"
  shows "t = t'"
proof (rule ccontr)
  assume ne: "t \<noteq> t'"
  from assms have m: "t \<in> set xs" "t' \<in> set xs"
    by (simp_all add: firstClosest_def)
  from assms m have le: "distanceTo s a t \<le> distanceTo s a t'" "distanceTo s a t' \<le> distanceTo s a t"
    by (simp_all add: firstClosest_def list_all_iff)
  from firstClosest_order [OF m ne] assms
  have "distanceTo s a t < distanceTo s a t' \<or> distanceTo s a t' < distanceTo s a t"
    by (auto simp: firstClosest_def list_all_iff)
  with le show False by auto
qed

lemma chosenEnemy_Some_iff:
  "chosenEnemy s a enemies = Some t \<longleftrightarrow> firstClosest s a (inRawRange s a enemies) t"
proof
  assume "chosenEnemy s a enemies = Some t"
  then show "firstClosest s a (inRawRange s a enemies) t"
    by (auto simp: chosenEnemy_def Let_def find_Some_iff)
next
  assume f: "firstClosest s a (inRawRange s a enemies) t"
  then have "t \<in> set (inRawRange s a enemies)" by (simp add: firstClosest_def)
  with f have "find (firstClosest s a (inRawRange s a enemies)) (inRawRange s a enemies) \<noteq> None"
    by (auto simp: find_None_iff)
  then obtain t' where t': "find (firstClosest s a (inRawRange s a enemies)) (inRawRange s a enemies) = Some t'"
    by auto
  then have "firstClosest s a (inRawRange s a enemies) t'"
    by (auto simp: find_Some_iff)
  with f have "t' = t" by (rule firstClosest_unique [symmetric])
  with t' show "chosenEnemy s a enemies = Some t"
    by (simp add: chosenEnemy_def Let_def)
qed

lemma chosenEnemy_None_iff:
  "chosenEnemy s a enemies = None \<longleftrightarrow> inRawRange s a enemies = []"
proof
  assume n: "chosenEnemy s a enemies = None"
  show "inRawRange s a enemies = []"
  proof (rule ccontr)
    assume "inRawRange s a enemies \<noteq> []"
    with findClosest_initial [of s a enemies]
    obtain t where "firstClosest s a (inRawRange s a enemies) t" by blast
    then have "chosenEnemy s a enemies = Some t" by (simp add: chosenEnemy_Some_iff)
    with n show False by simp
  qed
next
  assume "inRawRange s a enemies = []"
  then show "chosenEnemy s a enemies = None"
    by (simp add: chosenEnemy_def)
qed

lemma findClosest_chosenEnemy:
  "findClosest s (s a) enemies None (AttackRange (s a) + 1) = chosenEnemy s a enemies"
proof (cases "inRawRange s a enemies = []")
  case True
  then have "chosenEnemy s a enemies = None" by (simp add: chosenEnemy_None_iff)
  with True show ?thesis
    using findClosest_initial [of s a enemies] by simp
next
  case False
  with findClosest_initial [of s a enemies]
  obtain t where t: "findClosest s (s a) enemies None (AttackRange (s a) + 1) = Some t"
    "firstClosest s a (inRawRange s a enemies) t" by blast
  from t(2) have "chosenEnemy s a enemies = Some t" by (simp add: chosenEnemy_Some_iff)
  with t(1) show ?thesis by simp
qed

lemma Attack_dead_target: "\<not> IsAlive (s t) \<Longrightarrow> Attack s a t = (0, s)"
  by (simp add: Attack_def)

lemma combatStep_spec_turn: "combatStep a enemies s = spec_turn enemies s a"
  by (simp add: combatStep_def spec_turn_def findClosest_chosenEnemy Attack_dead_target
      split: option.splits)

lemma combatLoop_spec_pass: "combatLoop attackers enemies s = spec_pass attackers enemies s"
  unfolding spec_pass_def
  by (induction attackers arbitrary: s) (simp_all add: combatStep_spec_turn)

text \<open>
  Claim C3, as amended.  \<open>processCombat\<close> lists the alive, non-retreating units of both
  armies once, when it begins; army A's listed units take their turns in list order
  against army B's list, then army B's against army A's, each turn on the store the
  earlier turns have left, and nothing but the store of units changes.  At its turn,
  a unit that cannot attack (dead by now, or cooling down) does nothing.  Otherwise it
  picks the first listed enemy at minimal distance among the listed enemies within
  its raw attack range, none if there is no such enemy; it attacks the enemy picked
  if that enemy is still alive, and nobody if that enemy has been killed earlier in
  the pass.  No unit other than the attacker and the enemy picked is changed by a
  turn.  This is the combat step of every tick of an active battle.
\<close>

theorem processCombat_turns:
  "(let unitsA = GetAliveUnits (units bm) (ArmyA bm);
        unitsB = GetAliveUnits (units bm) (ArmyB bm)
    in processCombat bm
         = bm\<lparr>units := spec_pass unitsB unitsA (spec_pass unitsA unitsB (units bm))\<rparr>)
   \<and> (IsActive bm \<longrightarrow>
        units (Update bm deltaTime)
          = units (processCombat (handleCollisions (afterAI bm deltaTime))))
   \<and> (\<forall>s a enemies t.
        (chosenEnemy s a enemies = None \<longleftrightarrow> inRawRange s a enemies = [])
        \<and> (chosenEnemy s a enemies = Some t
             \<longleftrightarrow> firstClosest s a (inRawRange s a enemies) t)
        \<and> (\<not> CanAttack (s a) \<longrightarrow> spec_turn enemies s a = s)
        \<and> (CanAttack (s a) \<and> chosenEnemy s a enemies = None \<longrightarrow> spec_turn enemies s a = s)
        \<and> (CanAttack (s a) \<and> chosenEnemy s a enemies = Some t \<and> \<not> IsAlive (s t) \<longrightarrow>
             spec_turn enemies s a = s)
        \<and> (CanAttack (s a) \<and> chosenEnemy s a enemies = Some t \<and> IsAlive (s t) \<longrightarrow>
             spec_turn enemies s a = snd (Attack s a t))
        \<and> (\<forall>x. x \<noteq> a \<and> chosenEnemy s a enemies \<noteq> Some x \<longrightarrow> spec_turn enemies s a x = s x))"
proof (intro conjI allI impI)
  show "let unitsA = GetAliveUnits (units bm) (ArmyA bm);
        unitsB = GetAliveUnits (units bm) (ArmyB bm)
    in processCombat bm
         = bm\<lparr>units := spec_pass unitsB unitsA (spec_pass unitsA unitsB (units bm))\<rparr>"
    by (simp add: processCombat_def Let_def combatLoop_spec_pass)
next
  assume "IsActive bm"
  then show "units (Update bm deltaTime)
          = units (processCombat (handleCollisions (afterAI bm deltaTime)))"
    by (simp add: Update_def Let_def checkWinConditions_def afterAI_def afterArmies_def)
next
  fix s a enemies t
  show "(chosenEnemy s a enemies = None) = (inRawRange s a enemies = [])"
    by (rule chosenEnemy_None_iff)
  show "(chosenEnemy s a enemies = Some t) = firstClosest s a (inRawRange s a enemies) t"
    by (rule chosenEnemy_Some_iff)
  show "spec_turn enemies s a = s" if "\<not> CanAttack (s a)"
    using that by (simp add: spec_turn_def)
  show "spec_turn enemies s a = s" if "CanAttack (s a) \<and> chosenEnemy s a enemies = None"
    using that by (simp add: spec_turn_def)
  show "spec_turn enemies s a = s"
    if "CanAttack (s a) \<and> chosenEnemy s a enemies = Some t \<and> \<not> IsAlive (s t)"
    using that by (simp add: spec_turn_def)
  show "spec_turn enemies s a = snd (Attack s a t)"
    if "CanAttack (s a) \<and> chosenEnemy s a enemies = Some t \<and> IsAlive (s t)"
    using that by (simp add: spec_turn_def)
  show "spec_turn enemies s a x = s x" if "x \<noteq> a \<and> chosenEnemy s a enemies \<noteq> Some x" for x
    using that by (auto simp: spec_turn_def Attack_frame split: option.splits)
qed

lemma demo_melee_units_simps:
  "demo_melee_units 0 = (demo_unit_at 0 0)\<lparr>IsLeader := True\<rparr>"
  "demo_melee_units 2 = demo_unit_at 7 0"
  "demo_melee_units 3 = (demo_unit_at 14 0)\<lparr>IsLeader := True, ArmyID := 1, HP := 5\<rparr>"
  "demo_melee_units 4 = (demo_unit_at 21 0)\<lparr>ArmyID := 1\<rparr>"
  by (simp_all add: demo_melee_units_def)

lemma demo_melee_mid_simps:
  "demo_melee_mid 0 = (demo_melee_units 0)\<lparr>LastAttackTime := 1\<rparr>"
  "demo_melee_mid 2 = demo_melee_units 2"
  "demo_melee_mid 3 = (demo_melee_units 3)\<lparr>HP := 0, IsAlive := False\<rparr>"
  "demo_melee_mid 4 = demo_melee_units 4"
  by (simp_all add: demo_melee_mid_def)

lemma demo_melee_lists:
  "GetAliveUnits (units demo_melee) (ArmyA demo_melee) = [0, 2]"
  "GetAliveUnits (units demo_melee) (ArmyB demo_melee) = [3, 4]"
  by (simp_all add: GetAliveUnits_def demo_melee_def Army_GetAllUnits_def Group_GetAllUnits_def
      NewGroup_def demo_melee_units_simps demo_unit_at_def NewUnit_def)

lemmas melee_eval =
  demo_melee_mid_simps demo_melee_units_simps demo_unit_at_def NewUnit_def demo_infantry_cfg_def
  CanAttack_def inRawRange_def distanceTo_def Distance_same_Y firstClosest_def
  Attack_def Let_def GetCollisionRadius_def TakeDamage_def
  UnitTypeInfantry_def UnitTypeMage_def word_sless_alt word_sle_eq

text \<open>The turns of the melee, one by one.\<close>

lemma demo_melee_turn0:
  "chosenEnemy demo_melee_units 0 [3, 4] = Some 3"
  "spec_turn [3, 4] demo_melee_units 0 = demo_melee_mid"
proof -
  show c: "chosenEnemy demo_melee_units 0 [3, 4] = Some 3"
    by (simp add: chosenEnemy_def melee_eval)
  show "spec_turn [3, 4] demo_melee_units 0 = demo_melee_mid"
    unfolding spec_turn_def c demo_melee_mid_def
    by (rule ext) (simp add: melee_eval)
qed

lemma demo_melee_turn2:
  "chosenEnemy demo_melee_mid 2 [3, 4] = Some 3"
  "spec_turn [3, 4] demo_melee_mid 2 = demo_melee_mid"
proof -
  show c: "chosenEnemy demo_melee_mid 2 [3, 4] = Some 3"
    by (simp add: chosenEnemy_def melee_eval)
  show "spec_turn [3, 4] demo_melee_mid 2 = demo_melee_mid"
    unfolding spec_turn_def c by (simp add: melee_eval)
qed

lemma demo_melee_turn3: "spec_turn [0, 2] demo_melee_mid 3 = demo_melee_mid"
  by (simp add: spec_turn_def melee_eval)

lemma demo_melee_turn4:
  "chosenEnemy demo_melee_mid 4 [0, 2] = Some 2"
  "spec_turn [0, 2] demo_melee_mid 4 = demo_melee_end"
proof -
  show c: "chosenEnemy demo_melee_mid 4 [0, 2] = Some 2"
    by (simp add: chosenEnemy_def melee_eval)
  show "spec_turn [0, 2] demo_melee_mid 4 = demo_melee_end"
    unfolding spec_turn_def c demo_melee_end_def
    by (rule ext) (simp add: melee_eval)
qed

lemma demo_melee_pass:
  "spec_pass [3, 4] [0, 2] (spec_pass [0, 2] [3, 4] demo_melee_units) = demo_melee_end"
  by (simp add: spec_pass_def demo_melee_turn0 demo_melee_turn2 demo_melee_turn3 demo_melee_turn4)

theorem processCombat_turns_witness:
  "IsActive demo_melee \<and>
   units (Update demo_melee 1) = units (processCombat (handleCollisions (afterAI demo_melee 1))) \<and>
   GetAliveUnits (units demo_melee) (ArmyA demo_melee) = [0, 2] \<and>
   GetAliveUnits (units demo_melee) (ArmyB demo_melee) = [3, 4] \<and>
   processCombat demo_melee = demo_melee\<lparr>units := demo_melee_end\<rparr> \<and>
   HP (demo_melee_end 3) = 0 \<and> \<not> IsAlive (demo_melee_end 3) \<and>
   LastAttackTime (demo_melee_end 0) = 1 \<and>
   HP (demo_melee_end 2) = 95 \<and> LastAttackTime (demo_melee_end 4) = 1 \<and>
   firstClosest demo_melee_units 0 (inRawRange demo_melee_units 0 [3, 4]) 3 \<and>
   inRawRange demo_melee_units 4 [] = [] \<and>
   spec_turn [] demo_melee_units 4 = demo_melee_units \<and>
   \<not> CanAttack (demo_melee_mid 3) \<and> spec_turn [0, 2] demo_melee_mid 3 = demo_melee_mid \<and>
   spec_turn [3, 4] demo_melee_units 0 4 = demo_melee_units 4"
proof -
  note T = processCombat_turns [of demo_melee 1]
  have act: "IsActive demo_melee" by (simp add: demo_melee_def)
  have u: "units demo_melee = demo_melee_units" by (simp add: demo_melee_def)
  have p: "processCombat demo_melee = demo_melee\<lparr>units := demo_melee_end\<rparr>"
    using T [THEN conjunct1]
    unfolding Let_def u demo_melee_lists [unfolded u] demo_melee_pass .
  have tick: "units (Update demo_melee 1)
                = units (processCombat (handleCollisions (afterAI demo_melee 1)))"
    using T [THEN conjunct2, THEN conjunct1] act by simp
  note R = T [THEN conjunct2, THEN conjunct2, rule_format]
  have f: "firstClosest demo_melee_units 0 (inRawRange demo_melee_units 0 [3, 4]) 3"
    using R [of demo_melee_units 0 "[3, 4]" 3, THEN conjunct2, THEN conjunct1]
      demo_melee_turn0(1) by simp
  have e: "inRawRange demo_melee_units 4 [] = []" by (simp add: inRawRange_def)
  have n: "spec_turn [] demo_melee_units 4 = demo_melee_units"
    using R [of demo_melee_units 4 "[]" 0] e
    by (cases "CanAttack (demo_melee_units 4)") simp_all
  have d: "\<not> CanAttack (demo_melee_mid 3)" by (simp add: melee_eval)
  have d': "spec_turn [0, 2] demo_melee_mid 3 = demo_melee_mid"
    using R [of demo_melee_mid 3 "[0, 2]" 0] d by simp
  have fr: "spec_turn [3, 4] demo_melee_units 0 4 = demo_melee_units 4"
    using R [of demo_melee_units 0 "[3, 4]" 3] demo_melee_turn0(1) by simp
  have vals: "HP (demo_melee_end 3) = 0" "\<not> IsAlive (demo_melee_end 3)"
    "LastAttackTime (demo_melee_end 0) = 1"
    "HP (demo_melee_end 2) = 95" "LastAttackTime (demo_melee_end 4) = 1"
    by (simp_all add: demo_melee_end_def demo_melee_mid_def)
  show ?thesis
    using act tick demo_melee_lists p vals f e n d d' fr by simp
qed

text \<open>
  Claim C3 as stated fails when the enemy a unit picks has been killed earlier in the
  same pass.  In the melee the unit at address 0 kills the enemy at address 3.  When
  the turn of the unit at address 2 comes, it is alive, not retreating and ready, and
  the enemy at address 4 is the only enemy alive, not retreating and within its raw
  range; an attack on it would land.  But the unit picks the dead enemy at address 3,
  which is nearer, and attacks nobody: at the end of the combat step its cooldown has
  not started and the enemy at address 4 has all its hit points.
\<close>

theorem processCombat_stale_target_counterexample:
  "GetAliveUnits (units demo_melee) (ArmyA demo_melee) = [0, 2] \<and>
   GetAliveUnits (units demo_melee) (ArmyB demo_melee) = [3, 4] \<and>
   combatStep 0 [3, 4] (units demo_melee) = demo_melee_mid \<and>
   IsAlive (demo_melee_mid 2) \<and> \<not> IsRetreating (demo_melee_mid 2) \<and>
   CanAttack (demo_melee_mid 2) \<and>
   liveInRawRange demo_melee_mid 2 [3, 4] = [4] \<and>
   snd (Attack demo_melee_mid 2 4) \<noteq> demo_melee_mid \<and>
   combatStep 2 [3, 4] demo_melee_mid = demo_melee_mid \<and>
   LastAttackTime (units (processCombat demo_melee) 2) = 0 \<and>
   HP (units (processCombat demo_melee) 4) = MaxHP (units (processCombat demo_melee) 4) \<and>
   IsAlive (units (processCombat demo_melee) 4)"
proof -
  have u: "units demo_melee = demo_melee_units" by (simp add: demo_melee_def)
  have p: "units (processCombat demo_melee) = demo_melee_end"
    by (simp add: processCombat_def Let_def demo_melee_lists combatLoop_spec_pass
        demo_melee_pass [unfolded u [symmetric]])
  have l: "liveInRawRange demo_melee_mid 2 [3, 4] = [4]"
    by (simp add: liveInRawRange_def melee_eval)
  have a: "HP (snd (Attack demo_melee_mid 2 4) 4) = 95"
    by (simp add: melee_eval)
  have ne: "snd (Attack demo_melee_mid 2 4) \<noteq> demo_melee_mid"
  proof
    assume "snd (Attack demo_melee_mid 2 4) = demo_melee_mid"
    with a have "HP (demo_melee_mid 4) = 95" by simp
    then show False by (simp add: melee_eval)
  qed
  show ?thesis
    unfolding p u combatStep_spec_turn demo_melee_turn0 demo_melee_turn2
    using demo_melee_lists l ne
    by (simp add: u demo_melee_end_def melee_eval)
qed

subsection \<open>What each step of the tick leaves unchanged\<close>

lemma Unit_Update_fields [simp]:
  "HP (Unit_Update u dt) = HP u" "MaxHP (Unit_Update u dt) = MaxHP u"
  "IsAlive (Unit_Update u dt) = IsAlive u" "IsRetreating (Unit_Update u dt) = IsRetreating u"
  "Target (Unit_Update u dt) = Target u"
  by (simp_all add: Unit_Update_def Let_def)

lemma Unit_Update_dead [simp]: "\<not> IsAlive u \<Longrightarrow> Unit_Update u dt = u"
  by (simp add: Unit_Update_def)

lemma MoveTo_fields [simp]:
  "HP (MoveTo u p) = HP u" "MaxHP (MoveTo u p) = MaxHP u"
  "IsAlive (MoveTo u p) = IsAlive u" "IsRetreating (MoveTo u p) = IsRetreating u"
  "Position (MoveTo u p) = Position u" "Target (MoveTo u p) = p"
  by (simp_all add: MoveTo_def)

lemma StartRetreating_fields [simp]:
  "HP (StartRetreating u p) = HP u" "MaxHP (StartRetreating u p) = MaxHP u"
  "IsAlive (StartRetreating u p) = IsAlive u" "IsRetreating (StartRetreating u p)"
  "Position (StartRetreating u p) = Position u"
  by (simp_all add: StartRetreating_def)

lemma circleLoop_fields [simp]:
  "HP (circleLoop g st ims s x) = HP (s x) \<and> MaxHP (circleLoop g st ims s x) = MaxHP (s x)
   \<and> IsAlive (circleLoop g st ims s x) = IsAlive (s x)
   \<and> IsRetreating (circleLoop g st ims s x) = IsRetreating (s x)
   \<and> Position (circleLoop g st ims s x) = Position (s x)"
proof (induction ims arbitrary: s)
  case Nil
  show ?case by simp
next
  case (Cons im ims)
  obtain i m where "im = (i, m)" by (cases im)
  with Cons show ?case by simp
qed

lemma circleLoop_frame: "x \<notin> snd ` set ims \<Longrightarrow> circleLoop g st ims s x = s x"
proof (induction ims arbitrary: s)
  case Nil
  show ?case by simp
next
  case (Cons im ims)
  obtain i m where "im = (i, m)" by (cases im)
  with Cons show ?case by simp
qed

lemma snd_set_enumerate: "snd ` set (enumerate n xs) = set xs"
proof -
  have "set (map snd (enumerate n xs)) = set xs" by (simp only: map_snd_enumerate)
  then show ?thesis by (simp only: set_map)
qed

lemma updateFormation_fields [simp]:
  "HP (updateFormation g s x) = HP (s x)" "MaxHP (updateFormation g s x) = MaxHP (s x)"
  "IsAlive (updateFormation g s x) = IsAlive (s x)"
  "IsRetreating (updateFormation g s x) = IsRetreating (s x)"
  "Position (updateFormation g s x) = Position (s x)"
  by (simp_all add: updateFormation_def updateCircleFormation_def Let_def
      split: FormationType.splits)

lemma updateFormation_frame: "x \<notin> set (Members g) \<Longrightarrow> updateFormation g s x = s x"
proof -
  assume x: "x \<notin> set (Members g)"
  have "x \<notin> snd ` set (enumerate 0 (getAliveMembers s g))"
    unfolding snd_set_enumerate using x by (simp add: getAliveMembers_def)
  then show ?thesis
    by (simp add: updateFormation_def updateCircleFormation_def Let_def circleLoop_frame
        split: FormationType.splits)
qed

lemma retreatLoop_fields [simp]:
  "HP (retreatLoop ms s x) = HP (s x) \<and> MaxHP (retreatLoop ms s x) = MaxHP (s x)
   \<and> IsAlive (retreatLoop ms s x) = IsAlive (s x)
   \<and> Position (retreatLoop ms s x) = Position (s x)"
  by (induction ms arbitrary: s) auto

lemma retreatLoop_keeps_retreating:
  "IsRetreating (s x) \<Longrightarrow> IsRetreating (retreatLoop ms s x)"
  by (induction ms arbitrary: s) auto

lemma retreatLoop_frame: "x \<notin> set ms \<Longrightarrow> retreatLoop ms s x = s x"
  by (induction ms arbitrary: s) auto

lemma retreatLoop_retreats:
  "x \<in> set ms \<Longrightarrow> IsAlive (s x) \<Longrightarrow> IsRetreating (retreatLoop ms s x)"
proof (induction ms arbitrary: s)
  case Nil
  then show ?case by simp
next
  case (Cons member rest)
  show ?case
  proof (cases "x = member")
    case True
    with Cons.prems show ?thesis
      by (auto intro!: retreatLoop_keeps_retreating)
  next
    case False
    with Cons show ?thesis by auto
  qed
qed

lemma updateMembers_fields [simp]:
  "HP (updateMembers dt ms s x) = HP (s x) \<and> MaxHP (updateMembers dt ms s x) = MaxHP (s x)
   \<and> IsAlive (updateMembers dt ms s x) = IsAlive (s x)
   \<and> IsRetreating (updateMembers dt ms s x) = IsRetreating (s x)
   \<and> Target (updateMembers dt ms s x) = Target (s x)"
  by (induction ms arbitrary: s) auto

lemma updateMembers_frame: "x \<notin> set ms \<Longrightarrow> updateMembers dt ms s x = s x"
  by (induction ms arbitrary: s) auto


lemma handleLeaderDeath_fields [simp]:
  "HP (handleLeaderDeath g s x) = HP (s x)" "MaxHP (handleLeaderDeath g s x) = MaxHP (s x)"
  "IsAlive (handleLeaderDeath g s x) = IsAlive (s x)"
  "Position (handleLeaderDeath g s x) = Position (s x)"
  by (simp_all add: handleLeaderDeath_def)

lemma Group_Update_fields [simp]:
  "HP (snd (Group_Update g dt s) x) = HP (s x)"
  "MaxHP (snd (Group_Update g dt s) x) = MaxHP (s x)"
  "IsAlive (snd (Group_Update g dt s) x) = IsAlive (s x)"
  by (simp_all add: Group_Update_def Let_def split: option.splits)

lemma Group_Update_keeps_retreating:
  "IsRetreating (s x) \<Longrightarrow> IsRetreating (snd (Group_Update g dt s) x)"
  by (simp add: Group_Update_def handleLeaderDeath_def Let_def retreatLoop_keeps_retreating
      split: option.splits)

lemma Group_Update_frame:
  "x \<notin> set (Group_GetAllUnits g) \<Longrightarrow> snd (Group_Update g dt s) x = s x"
  by (auto simp: Group_Update_def Group_GetAllUnits_def handleLeaderDeath_def Let_def
      retreatLoop_frame updateMembers_frame updateFormation_frame split: option.splits)

lemma Group_Update_struct [simp]:
  "Leader (fst (Group_Update g dt s)) = Leader g"
  "Members (fst (Group_Update g dt s)) = Members g"
  "g_Formation (fst (Group_Update g dt s)) = g_Formation g"
  "Group_GetAllUnits (fst (Group_Update g dt s)) = Group_GetAllUnits g"
  by (simp_all add: Group_Update_def Group_GetAllUnits_def Let_def split: option.splits)

lemma updateGroups_fields [simp]:
  "HP (snd (updateGroups dt gs s) x) = HP (s x)
   \<and> MaxHP (snd (updateGroups dt gs s) x) = MaxHP (s x)
   \<and> IsAlive (snd (updateGroups dt gs s) x) = IsAlive (s x)"
  by (induction gs arbitrary: s) (simp_all add: split_beta)

lemma updateGroups_keeps_retreating:
  "IsRetreating (s x) \<Longrightarrow> IsRetreating (snd (updateGroups dt gs s) x)"
  by (induction gs arbitrary: s) (simp_all add: split_beta Group_Update_keeps_retreating)

lemma updateGroups_frame:
  "x \<notin> set (concat (map Group_GetAllUnits gs)) \<Longrightarrow> snd (updateGroups dt gs s) x = s x"
  by (induction gs arbitrary: s) (simp_all add: split_beta Group_Update_frame)

lemma updateGroups_struct [simp]:
  "map Leader (fst (updateGroups dt gs s)) = map Leader gs
   \<and> map Members (fst (updateGroups dt gs s)) = map Members gs
   \<and> map Group_GetAllUnits (fst (updateGroups dt gs s)) = map Group_GetAllUnits gs
   \<and> length (fst (updateGroups dt gs s)) = length gs"
  by (induction gs arbitrary: s) (simp_all add: split_beta)

lemma updateGroups_append:
  "updateGroups dt (gs1 @ gs2) s =
     (fst (updateGroups dt gs1 s) @ fst (updateGroups dt gs2 (snd (updateGroups dt gs1 s))),
      snd (updateGroups dt gs2 (snd (updateGroups dt gs1 s))))"
  by (induction gs1 arbitrary: s) (simp_all add: split_beta)

text \<open>\<open>updateArmies\<close> visits the groups of army A, then those of army B.\<close>

lemma updateArmies_units:
  "units (updateArmies bm dt)
     = snd (updateGroups dt (Groups (ArmyA bm) @ Groups (ArmyB bm)) (units bm))"
  by (simp add: updateArmies_def Army_Update_def split_beta updateGroups_append)

lemma updateArmies_groups:
  "Groups (ArmyA (updateArmies bm dt)) @ Groups (ArmyB (updateArmies bm dt))
     = fst (updateGroups dt (Groups (ArmyA bm) @ Groups (ArmyB bm)) (units bm))"
  by (simp add: updateArmies_def Army_Update_def split_beta updateGroups_append)

lemma updateArmies_other [simp]:
  "BattleTime (updateArmies bm dt) = BattleTime bm"
  "TimeLimit (updateArmies bm dt) = TimeLimit bm"
  "IsActive (updateArmies bm dt) = IsActive bm"
  "Winner (updateArmies bm dt) = Winner bm"
  "Army_GetAllUnits (ArmyA (updateArmies bm dt)) = Army_GetAllUnits (ArmyA bm)"
  "Army_GetAllUnits (ArmyB (updateArmies bm dt)) = Army_GetAllUnits (ArmyB bm)"
  "map Leader (Groups (ArmyA (updateArmies bm dt))) = map Leader (Groups (ArmyA bm))"
  "map Leader (Groups (ArmyB (updateArmies bm dt))) = map Leader (Groups (ArmyB bm))"
  "map Members (Groups (ArmyA (updateArmies bm dt))) = map Members (Groups (ArmyA bm))"
  "map Members (Groups (ArmyB (updateArmies bm dt))) = map Members (Groups (ArmyB bm))"
  by (simp_all add: updateArmies_def Army_Update_def split_beta Army_GetAllUnits_def)

lemma MoveTo_stats [simp]:
  "Size (MoveTo u p) = Size u" "AttackRange (MoveTo u p) = AttackRange u"
  "LastAttackTime (MoveTo u p) = LastAttackTime u"
  by (simp_all add: MoveTo_def)

lemma executeAction_fields [simp]:
  "HP (executeAction ai s u d) = HP u" "MaxHP (executeAction ai s u d) = MaxHP u"
  "IsAlive (executeAction ai s u d) = IsAlive u"
  "IsRetreating (executeAction ai s u d) = IsRetreating u"
  "Position (executeAction ai s u d) = Position u"
  "Size (executeAction ai s u d) = Size u" "AttackRange (executeAction ai s u d) = AttackRange u"
  "LastAttackTime (executeAction ai s u d) = LastAttackTime u"
  by (simp_all add: executeAction_def moveTowardsTarget_def moveAwayFromTarget_def Let_def
      split: AIAction.splits option.splits)

lemma AIBehavior_Update_fields [simp]:
  "HP (AIBehavior_Update ai a es dt s x) = HP (s x)"
  "MaxHP (AIBehavior_Update ai a es dt s x) = MaxHP (s x)"
  "IsAlive (AIBehavior_Update ai a es dt s x) = IsAlive (s x)"
  "IsRetreating (AIBehavior_Update ai a es dt s x) = IsRetreating (s x)"
  "Position (AIBehavior_Update ai a es dt s x) = Position (s x)"
  "Size (AIBehavior_Update ai a es dt s x) = Size (s x)"
  "AttackRange (AIBehavior_Update ai a es dt s x) = AttackRange (s x)"
  "LastAttackTime (AIBehavior_Update ai a es dt s x) = LastAttackTime (s x)"
  by (simp_all add: AIBehavior_Update_def Let_def split: option.splits)

lemma AIBehavior_Update_frame: "x \<noteq> a \<Longrightarrow> AIBehavior_Update ai a es dt s x = s x"
  by (simp add: AIBehavior_Update_def Let_def split: option.splits)

lemma aiLoop_fields [simp]:
  "HP (aiLoop us es dt s x) = HP (s x) \<and> MaxHP (aiLoop us es dt s x) = MaxHP (s x)
   \<and> IsAlive (aiLoop us es dt s x) = IsAlive (s x)
   \<and> IsRetreating (aiLoop us es dt s x) = IsRetreating (s x)
   \<and> Position (aiLoop us es dt s x) = Position (s x)
   \<and> Size (aiLoop us es dt s x) = Size (s x)
   \<and> AttackRange (aiLoop us es dt s x) = AttackRange (s x)
   \<and> LastAttackTime (aiLoop us es dt s x) = LastAttackTime (s x)"
  by (induction us arbitrary: s) (simp_all split: option.splits)

lemma aiLoop_frame: "x \<notin> set us \<Longrightarrow> aiLoop us es dt s x = s x"
  by (induction us arbitrary: s) (simp_all add: AIBehavior_Update_frame split: option.splits)

lemma updateAI_fields [simp]:
  "HP (units (updateAI bm dt) x) = HP (units bm x)"
  "MaxHP (units (updateAI bm dt) x) = MaxHP (units bm x)"
  "IsAlive (units (updateAI bm dt) x) = IsAlive (units bm x)"
  "IsRetreating (units (updateAI bm dt) x) = IsRetreating (units bm x)"
  "Position (units (updateAI bm dt) x) = Position (units bm x)"
  "Size (units (updateAI bm dt) x) = Size (units bm x)"
  "AttackRange (units (updateAI bm dt) x) = AttackRange (units bm x)"
  "LastAttackTime (units (updateAI bm dt) x) = LastAttackTime (units bm x)"
  "ArmyA (updateAI bm dt) = ArmyA bm" "ArmyB (updateAI bm dt) = ArmyB bm"
  "BattleTime (updateAI bm dt) = BattleTime bm" "TimeLimit (updateAI bm dt) = TimeLimit bm"
  "IsActive (updateAI bm dt) = IsActive bm" "Winner (updateAI bm dt) = Winner bm"
  by (simp_all add: updateAI_def Let_def)

lemma ResolveCollision_fields [simp]:
  "HP (ResolveCollision s a b x) = HP (s x)" "MaxHP (ResolveCollision s a b x) = MaxHP (s x)"
  "IsAlive (ResolveCollision s a b x) = IsAlive (s x)"
  "IsRetreating (ResolveCollision s a b x) = IsRetreating (s x)"
  "Target (ResolveCollision s a b x) = Target (s x)"
  "Size (ResolveCollision s a b x) = Size (s x)"
  "AttackRange (ResolveCollision s a b x) = AttackRange (s x)"
  "LastAttackTime (ResolveCollision s a b x) = LastAttackTime (s x)"
  by (simp_all add: ResolveCollision_def Let_def)

lemma ResolveCollision_frame: "x \<noteq> a \<Longrightarrow> x \<noteq> b \<Longrightarrow> ResolveCollision s a b x = s x"
  by (simp add: ResolveCollision_def Let_def)

lemma collideWith_fields [simp]:
  "HP (collideWith u us s x) = HP (s x) \<and> MaxHP (collideWith u us s x) = MaxHP (s x)
   \<and> IsAlive (collideWith u us s x) = IsAlive (s x)
   \<and> IsRetreating (collideWith u us s x) = IsRetreating (s x)
   \<and> Target (collideWith u us s x) = Target (s x)
   \<and> Size (collideWith u us s x) = Size (s x)
   \<and> AttackRange (collideWith u us s x) = AttackRange (s x)
   \<and> LastAttackTime (collideWith u us s x) = LastAttackTime (s x)"
  by (induction us arbitrary: s) simp_all

lemma collideWith_frame: "x \<noteq> u \<Longrightarrow> x \<notin> set us \<Longrightarrow> collideWith u us s x = s x"
  by (induction us arbitrary: s) (simp_all add: ResolveCollision_frame)

lemma collideAll_fields [simp]:
  "HP (collideAll us s x) = HP (s x) \<and> MaxHP (collideAll us s x) = MaxHP (s x)
   \<and> IsAlive (collideAll us s x) = IsAlive (s x)
   \<and> IsRetreating (collideAll us s x) = IsRetreating (s x)
   \<and> Target (collideAll us s x) = Target (s x)
   \<and> Size (collideAll us s x) = Size (s x)
   \<and> AttackRange (collideAll us s x) = AttackRange (s x)
   \<and> LastAttackTime (collideAll us s x) = LastAttackTime (s x)"
  by (induction us arbitrary: s) simp_all

lemma collideAll_frame: "x \<notin> set us \<Longrightarrow> collideAll us s x = s x"
  by (induction us arbitrary: s) (simp_all add: collideWith_frame)

lemma handleCollisions_fields [simp]:
  "HP (units (handleCollisions bm) x) = HP (units bm x)"
  "MaxHP (units (handleCollisions bm) x) = MaxHP (units bm x)"
  "IsAlive (units (handleCollisions bm) x) = IsAlive (units bm x)"
  "IsRetreating (units (handleCollisions bm) x) = IsRetreating (units bm x)"
  "Target (units (handleCollisions bm) x) = Target (units bm x)"
  "Size (units (handleCollisions bm) x) = Size (units bm x)"
  "AttackRange (units (handleCollisions bm) x) = AttackRange (units bm x)"
  "LastAttackTime (units (handleCollisions bm) x) = LastAttackTime (units bm x)"
  "ArmyA (handleCollisions bm) = ArmyA bm" "ArmyB (handleCollisions bm) = ArmyB bm"
  "BattleTime (handleCollisions bm) = BattleTime bm"
  "TimeLimit (handleCollisions bm) = TimeLimit bm"
  "IsActive (handleCollisions bm) = IsActive bm" "Winner (handleCollisions bm) = Winner bm"
  by (simp_all add: handleCollisions_def Let_def)

lemma TakeDamage_fields [simp]:
  "MaxHP (TakeDamage u d) = MaxHP u" "IsRetreating (TakeDamage u d) = IsRetreating u"
  "Position (TakeDamage u d) = Position u" "Target (TakeDamage u d) = Target u"
  by (simp_all add: TakeDamage_def Let_def)

lemma Attack_fields [simp]:
  "MaxHP (snd (Attack s a t) x) = MaxHP (s x)"
  "Position (snd (Attack s a t) x) = Position (s x)"
  "Target (snd (Attack s a t) x) = Target (s x)"
  by (simp_all add: Attack_def Let_def)

lemma combatStep_fields [simp]:
  "MaxHP (combatStep a es s x) = MaxHP (s x)"
  "IsRetreating (combatStep a es s x) = IsRetreating (s x)"
  "Position (combatStep a es s x) = Position (s x)"
  "Target (combatStep a es s x) = Target (s x)"
  by (simp_all add: combatStep_def Attack_IsRetreating split: option.splits)

lemma combatLoop_fields [simp]:
  "MaxHP (combatLoop us es s x) = MaxHP (s x)
   \<and> IsRetreating (combatLoop us es s x) = IsRetreating (s x)
   \<and> Position (combatLoop us es s x) = Position (s x)
   \<and> Target (combatLoop us es s x) = Target (s x)"
  by (induction us arbitrary: s) simp_all

lemma processCombat_fields [simp]:
  "MaxHP (units (processCombat bm) x) = MaxHP (units bm x)"
  "IsRetreating (units (processCombat bm) x) = IsRetreating (units bm x)"
  "Position (units (processCombat bm) x) = Position (units bm x)"
  "Target (units (processCombat bm) x) = Target (units bm x)"
  "ArmyA (processCombat bm) = ArmyA bm" "ArmyB (processCombat bm) = ArmyB bm"
  "BattleTime (processCombat bm) = BattleTime bm" "TimeLimit (processCombat bm) = TimeLimit bm"
  "IsActive (processCombat bm) = IsActive bm" "Winner (processCombat bm) = Winner bm"
  by (simp_all add: processCombat_def Let_def)

lemma checkWinConditions_fields [simp]:
  "units (checkWinConditions bm) = units bm"
  "ArmyA (checkWinConditions bm) = ArmyA bm" "ArmyB (checkWinConditions bm) = ArmyB bm"
  "BattleTime (checkWinConditions bm) = BattleTime bm"
  "TimeLimit (checkWinConditions bm) = TimeLimit bm"
  by (simp_all add: checkWinConditions_def Let_def)

subsection \<open>The pipeline of a tick\<close>

lemma Update_active: "IsActive bm \<Longrightarrow> Update bm dt = checkWinConditions (beforeWinCheck bm dt)"
  by (simp add: Update_def beforeWinCheck_def afterAI_def afterArmies_def Let_def)

lemma Update_inactive: "\<not> IsActive bm \<Longrightarrow> Update bm dt = bm"
  by (simp add: Update_def)

lemma beforeWinCheck_fields [simp]:
  "BattleTime (beforeWinCheck bm dt) = BattleTime bm + dt"
  "TimeLimit (beforeWinCheck bm dt) = TimeLimit bm"
  "IsActive (beforeWinCheck bm dt) = IsActive bm"
  "Winner (beforeWinCheck bm dt) = Winner bm"
  by (simp_all add: beforeWinCheck_def afterAI_def afterArmies_def)





subsection \<open>Win conditions\<close>


subsection \<open>One tick of the small battle\<close>

lemma Normalize_Y0_neg: "Y v = 0 \<Longrightarrow> X v < 0 \<Longrightarrow> Normalize v = \<lparr>X = - 1, Y = 0\<rparr>"
  by (simp add: Normalize_def Length_Y0)

lemma demo_units_simps:
  "demo_units 0 = (demo_unit_at 0 0)\<lparr>IsLeader := True\<rparr>"
  "demo_units 2 = demo_unit_at 10 0"
  "demo_units 3 = (demo_unit_at 500 0)\<lparr>IsLeader := True, ArmyID := 1, HP := 50\<rparr>"
  by (simp_all add: demo_units_def)

lemma demo_units1_simps:
  "demo_units1 0 = (demo_unit_at 0 0)\<lparr>IsLeader := True\<rparr>"
  "demo_units1 2 = (demo_unit_at 10 0)\<lparr>Target := \<lparr>X = 50, Y = 0\<rparr>,
                       Position := \<lparr>X = 40, Y = 0\<rparr>\<rparr>"
  "demo_units1 3 = (demo_unit_at 500 0)\<lparr>IsLeader := True, ArmyID := 1, HP := 50\<rparr>"
  by (simp_all add: demo_units1_def demo_units_def)

lemma demo_armies_updated:
  "units (updateArmies (demo_battle b T) 1) = demo_units1"
  unfolding demo_units1_def
  apply (rule ext)
  apply (simp add: updateArmies_def demo_battle_def Army_Update_def NewGroup_def Group_Update_def
      Let_def)
  apply (simp add: demo_units_simps demo_unit_at_def NewUnit_def Unit_Update_def Let_def
      Distance_same_Y GetCollisionRadius_def demo_infantry_cfg_def anchor_def
      updateFormation_def leaderDown_def updateCircleFormation_def getAliveMembers_def
      enumerate_eq_zip formationPos_def MoveTo_def Add_def Sub_def Mul_def Normalize_def Length_Y0
      handleLeaderDeath_def)
  done

lemma demo_armies_lists:
  "Army_GetAllUnits (ArmyA (updateArmies (demo_battle b T) 1)) = [0, 2]"
  "Army_GetAllUnits (ArmyB (updateArmies (demo_battle b T) 1)) = [3]"
  unfolding updateArmies_other
  by (simp_all add: demo_battle_def Army_GetAllUnits_def Group_GetAllUnits_def NewGroup_def)

lemma demo_alive_lists:
  "GetAliveUnits demo_units1 (ArmyA (updateArmies (demo_battle b T) 1)) = [0, 2]"
  "GetAliveUnits demo_units1 (ArmyB (updateArmies (demo_battle b T) 1)) = [3]"
  unfolding GetAliveUnits_def demo_armies_lists
  by (simp_all add: demo_units1_simps demo_unit_at_def NewUnit_def)

lemma demo_updateAI:
  "units (updateAI (updateArmies (demo_battle b T) 1) 1)
     = aiLoop [3] [0, 2] 1 (aiLoop [0, 2] [3] 1 demo_units1)"
  by (simp add: updateAI_def Let_def demo_armies_updated demo_alive_lists del: aiLoop.simps)

lemmas demo_eval =
  demo_unit_at_def NewUnit_def NewAIBehavior_def
  AIBehavior_Update_def Let_def selectTarget_def calculateTargetScore_eq typeBonus_def
  GetHealthPercentage_def GetSightRange_def Distance_same_Y GetCollisionRadius_def
  decideAction_def CanAttack_def isRangedUnit_def executeAction_def moveTowardsTarget_def
  MoveTo_def Add_def Sub_def Mul_def Normalize_Y0 Normalize_Y0_neg
  demo_infantry_cfg_def UnitTypeInfantry_def UnitTypeMage_def UnitTypeArcher_def

text \<open>The AI pass then sends every unit 50 units towards its enemy.\<close>

lemma demo_ai_targets:
  "Target (aiLoop [3] [0, 2] 1 (aiLoop [0, 2] [3] 1 demo_units1) 0) = \<lparr>X = 50, Y = 0\<rparr>"
  "Target (aiLoop [3] [0, 2] 1 (aiLoop [0, 2] [3] 1 demo_units1) 2) = \<lparr>X = 90, Y = 0\<rparr>"
  "Target (aiLoop [3] [0, 2] 1 (aiLoop [0, 2] [3] 1 demo_units1) 3) = \<lparr>X = 450, Y = 0\<rparr>"
  by (simp_all add: demo_units1_simps demo_eval)


lemma demo_groups:
  "Groups (ArmyA (updateArmies (demo_battle b T) 1)) = [NewGroup demo_units 0 0 0 [2]]"
  "Groups (ArmyB (updateArmies (demo_battle b T) 1)) = [NewGroup demo_units 1 1 3 []]"
  apply (simp_all add: updateArmies_def demo_battle_def Army_Update_def NewGroup_def
      Group_Update_def Let_def split_beta)
  apply (simp_all add: demo_units_simps demo_unit_at_def NewUnit_def Unit_Update_def Let_def
      Distance_same_Y GetCollisionRadius_def demo_infantry_cfg_def anchor_def
      updateFormation_def leaderDown_def updateCircleFormation_def getAliveMembers_def
      enumerate_eq_zip formationPos_def MoveTo_def Add_def Sub_def Mul_def Normalize_def Length_Y0
      handleLeaderDeath_def)
  done

lemma demo_afterArmies: "afterArmies (demo_battle 0 T) 1 = updateArmies (demo_battle 1 T) 1"
  by (simp add: afterArmies_def demo_battle_def)

text \<open>Nobody collides and nobody is within range, so the store after the AI pass is the
  store before the win check.\<close>

lemma demo_afterAI_units:
  "units (afterAI (demo_battle 0 T) 1) = aiLoop [3] [0, 2] 1 (aiLoop [0, 2] [3] 1 demo_units1)"
  by (simp add: afterAI_def demo_afterArmies demo_updateAI)

lemma demo_alive_lists_afterAI:
  "GetAliveUnits (aiLoop [3] [0, 2] 1 (aiLoop [0, 2] [3] 1 demo_units1))
     (ArmyA (updateArmies (demo_battle b T) 1)) = [0, 2]"
  "GetAliveUnits (aiLoop [3] [0, 2] 1 (aiLoop [0, 2] [3] 1 demo_units1))
     (ArmyB (updateArmies (demo_battle b T) 1)) = [3]"
  unfolding GetAliveUnits_def demo_armies_lists
  by (simp_all add: demo_units1_simps demo_unit_at_def NewUnit_def del: aiLoop.simps)

lemma demo_no_collision:
  "collideAll [0, 2, 3] (aiLoop [3] [0, 2] 1 (aiLoop [0, 2] [3] 1 demo_units1))
     = aiLoop [3] [0, 2] 1 (aiLoop [0, 2] [3] 1 demo_units1)"
  by (simp add: IsCollidingWith_def GetCollisionRadius_def Distance_same_Y demo_units1_simps
      demo_unit_at_def NewUnit_def demo_infantry_cfg_def del: aiLoop.simps)

lemma demo_no_combat:
  "combatLoop [3] [0, 2] (combatLoop [0, 2] [3]
       (aiLoop [3] [0, 2] 1 (aiLoop [0, 2] [3] 1 demo_units1)))
     = aiLoop [3] [0, 2] 1 (aiLoop [0, 2] [3] 1 demo_units1)"
  by (simp add: combatStep_def CanAttack_def Distance_same_Y demo_units1_simps
      demo_unit_at_def NewUnit_def demo_infantry_cfg_def del: aiLoop.simps)

lemma demo_afterAI_armies:
  "ArmyA (afterAI (demo_battle 0 T) 1) = ArmyA (updateArmies (demo_battle 1 T) 1)"
  "ArmyB (afterAI (demo_battle 0 T) 1) = ArmyB (updateArmies (demo_battle 1 T) 1)"
  by (simp_all add: afterAI_def demo_afterArmies)

lemma demo_beforeWinCheck:
  "units (beforeWinCheck (demo_battle 0 T) 1)
     = aiLoop [3] [0, 2] 1 (aiLoop [0, 2] [3] 1 demo_units1)"
  "ArmyA (beforeWinCheck (demo_battle 0 T) 1) = ArmyA (updateArmies (demo_battle 1 T) 1)"
  "ArmyB (beforeWinCheck (demo_battle 0 T) 1) = ArmyB (updateArmies (demo_battle 1 T) 1)"
  by (simp_all add: beforeWinCheck_def processCombat_def handleCollisions_def Let_def
      demo_afterAI_units demo_afterAI_armies demo_alive_lists_afterAI demo_no_collision
      demo_no_combat
      del: aiLoop.simps collideAll.simps combatLoop.simps)



subsection \<open>Formation and the AI pass\<close>

lemma circleLoop_targets:
  assumes "distinct (map snd ims)" "\<forall>(i, m) \<in> set ims. \<not> IsRetreating (s m)"
    "(i, m) \<in> set ims"
  shows "Target (circleLoop g st ims s m) = formationPos g st i"
  using assms
proof (induction ims arbitrary: s)
  case Nil
  then show ?case by simp
next
  case (Cons im ims)
  obtain j k where im: "im = (j, k)" by (cases im)
  have nr: "\<not> IsRetreating (s k)" using Cons.prems(2) im by auto
  show ?case
  proof (cases "(i, m) = (j, k)")
    case True
    then have "m \<notin> snd ` set ims" using Cons.prems(1) im by auto
    then have "circleLoop g st ims (s(k := MoveTo (s k) (formationPos g st j))) m
                 = (s(k := MoveTo (s k) (formationPos g st j))) m"
      by (rule circleLoop_frame)
    with True nr im show ?thesis by simp
  next
    case False
    then have mem: "(i, m) \<in> set ims" using Cons.prems(3) im by auto
    have d: "distinct (map snd ims)" using Cons.prems(1) by simp
    have r: "\<forall>(i, m) \<in> set ims. \<not> IsRetreating ((s(k := MoveTo (s k) (formationPos g st j))) m)"
      using Cons.prems(2) by auto
    have step: "circleLoop g st (im # ims) s
                  = circleLoop g st ims (s(k := MoveTo (s k) (formationPos g st j)))"
      using nr im by simp
    show ?thesis unfolding step by (rule Cons.IH [OF d r mem])
  qed
qed

lemma getAliveMembers_cong:
  "\<forall>x \<in> set (Members g). IsAlive (s x) = IsAlive (s' x) \<and> IsRetreating (s x) = IsRetreating (s' x)
   \<Longrightarrow> Members g = Members g' \<Longrightarrow> getAliveMembers s g = getAliveMembers s' g'"
  unfolding getAliveMembers_def by (auto intro: filter_cong)

lemma inFormation_cong:
  assumes "\<forall>x \<in> set (Members g). s x = s' x"
  shows "inFormation s g = inFormation s' g"
proof -
  have a: "getAliveMembers s g = getAliveMembers s' g"
    using assms by (intro getAliveMembers_cong) simp_all
  have "snd ` set (enumerate 0 (getAliveMembers s' g)) \<subseteq> set (Members g)"
    unfolding snd_set_enumerate by (auto simp: getAliveMembers_def)
  then have "\<forall>im \<in> set (enumerate 0 (getAliveMembers s' g)). s (snd im) = s' (snd im)"
    using assms by blast
  then show ?thesis
    unfolding inFormation_def a Let_def list_all_iff by (auto simp: split_beta)
qed

lemma Group_Update_formation:
  assumes l: "Leader g = Some l" and alive: "IsAlive (s l)"
    and d: "distinct (Group_GetAllUnits g)"
  shows "inFormation (snd (Group_Update g dt s)) (fst (Group_Update g dt s))
       \<and> targetPosition (fst (Group_Update g dt s)) = anchor (snd (Group_Update g dt s) l)"
proof -
  define s1 where "s1 = s(l := Unit_Update (s l) dt)"
  define g1 where "g1 = g\<lparr>targetPosition := anchor (s1 l)\<rparr>"
  define s2 where "s2 = updateFormation g1 s1"
  define s3 where "s3 = updateMembers dt (Members g1) s2"
  have GU: "Group_Update g dt s = (g1, s3)"
    using l alive by (simp add: Group_Update_def Let_def s1_def g1_def s2_def s3_def)
  have lm: "l \<notin> set (Members g)" and dm: "distinct (Members g)"
    using d l by (simp_all add: Group_GetAllUnits_def)
  have m1: "Members g1 = Members g" and l1: "Leader g1 = Some l"
    by (simp_all add: g1_def l)
  define am where "am = getAliveMembers s1 g1"
  have up: "\<not> leaderDown s1 g1"
    using alive by (simp add: leaderDown_def l1 s1_def)
  have s2_eq: "s2 = (if length am = 0 then s1
                     else circleLoop g1 (2 * pi / real (length am)) (enumerate 0 am) s1)"
    using up by (simp add: s2_def updateFormation_def updateCircleFormation_def Let_def am_def
        split: FormationType.splits)
  have am3: "getAliveMembers s3 g1 = am"
    unfolding am_def s3_def s2_def by (intro getAliveMembers_cong) simp_all
  have dam: "distinct (map snd (enumerate 0 am))"
    using dm by (simp add: am_def getAliveMembers_def m1)
  have nr: "\<forall>(i, m) \<in> set (enumerate 0 am). \<not> IsRetreating (s1 m)"
    by (auto simp: in_set_enumerate_eq am_def getAliveMembers_def dest!: nth_mem)
  have slot: "Target (s3 m) = formationPos g1 (2 * pi / real (length am)) i"
    if "(i, m) \<in> set (enumerate 0 am)" for i m
  proof -
    from that have "am \<noteq> []" by auto
    then have "s2 = circleLoop g1 (2 * pi / real (length am)) (enumerate 0 am) s1"
      by (simp add: s2_eq)
    then have "Target (s2 m) = formationPos g1 (2 * pi / real (length am)) i"
      using circleLoop_targets [OF dam nr that] by simp
    then show ?thesis by (simp add: s3_def)
  qed
  have form: "inFormation s3 g1"
    unfolding inFormation_def am3 Let_def list_all_iff using slot by auto
  have "s3 l = s1 l"
    using lm by (simp add: s3_def s2_def m1 updateMembers_frame updateFormation_frame)
  then have "targetPosition g1 = anchor (s3 l)" by (simp add: g1_def)
  with form show ?thesis by (simp add: GU)
qed

lemma updateGroups_formation:
  assumes "distinct (concat (map Group_GetAllUnits gs))"
    and "g' \<in> set (fst (updateGroups dt gs s))" "Leader g' = Some l"
    and "IsAlive (snd (updateGroups dt gs s) l)"
  shows "inFormation (snd (updateGroups dt gs s)) g'
       \<and> targetPosition g' = anchor (snd (updateGroups dt gs s) l)"
  using assms
proof (induction gs arbitrary: s)
  case Nil
  then show ?case by simp
next
  case (Cons g gs)
  define g1 where "g1 = fst (Group_Update g dt s)"
  define s1 where "s1 = snd (Group_Update g dt s)"
  have ug: "updateGroups dt (g # gs) s
              = (g1 # fst (updateGroups dt gs s1), snd (updateGroups dt gs s1))"
    by (simp add: split_beta g1_def s1_def)
  have dg: "distinct (Group_GetAllUnits g)"
    and dgs: "distinct (concat (map Group_GetAllUnits gs))"
    and disj: "set (Group_GetAllUnits g) \<inter> set (concat (map Group_GetAllUnits gs)) = {}"
    using Cons.prems(1) by auto
  from Cons.prems(2) ug consider "g' = g1" | "g' \<in> set (fst (updateGroups dt gs s1))" by auto
  then show ?case
  proof cases
    case 1
    then have lg: "Leader g = Some l" using Cons.prems(3) by (simp add: g1_def)
    have "IsAlive (s l)" using Cons.prems(4) unfolding ug by (simp add: s1_def)
    from Group_Update_formation [where g = g and l = l and s = s and dt = dt, OF lg this dg]
    have F: "inFormation s1 g1" "targetPosition g1 = anchor (s1 l)"
      by (simp_all add: g1_def s1_def)
    have same: "snd (updateGroups dt gs s1) x = s1 x" if "x \<in> set (Group_GetAllUnits g)" for x
      using that disj by (intro updateGroups_frame) auto
    have "l \<in> set (Group_GetAllUnits g)" using lg by (simp add: Group_GetAllUnits_def)
    then have sl: "snd (updateGroups dt gs s1) l = s1 l" by (rule same)
    have "\<forall>x \<in> set (Members g1). snd (updateGroups dt gs s1) x = s1 x"
      using same by (simp add: g1_def Group_GetAllUnits_def)
    then have "inFormation (snd (updateGroups dt gs s1)) g1 = inFormation s1 g1"
      by (rule inFormation_cong)
    with F sl 1 show ?thesis unfolding ug by simp
  next
    case 2
    have "IsAlive (snd (updateGroups dt gs s1) l)" using Cons.prems(4) unfolding ug by simp
    from Cons.IH [OF dgs 2 Cons.prems(3) this] show ?thesis unfolding ug by simp
  qed
qed

lemma Update_Target_afterAI:
  "IsActive bm \<Longrightarrow> Target (units (Update bm dt) x) = Target (units (afterAI bm dt) x)"
  by (simp add: Update_active beforeWinCheck_def)

text \<open>
  Claim C1, as amended.  In an active tick, with no unit shared between groups: the
  formation write happens inside the armies' update, before that tick's AI pass.
  When the armies' update is done, every group whose leader is alive has the anchor
  computed from its leader, and each of its alive, non-retreating members has its
  formation slot (anchor plus radius at the member's index angle) as movement target.
  The AI pass runs after that, and the movement target a unit has at the end of
  \<open>Update\<close> is the one the AI pass left: collision, combat and win check do not write
  it.
\<close>

theorem formation_before_AI:
  assumes "distinctUnits bm" "IsActive bm"
  shows "(\<forall>g \<in> set (Groups (ArmyA (afterArmies bm deltaTime))
                   @ Groups (ArmyB (afterArmies bm deltaTime))).
            \<forall>l. Leader g = Some l \<and> IsAlive (units (afterArmies bm deltaTime) l) \<longrightarrow>
              targetPosition g = anchor (units (afterArmies bm deltaTime) l)
              \<and> inFormation (units (afterArmies bm deltaTime)) g)
       \<and> afterAI bm deltaTime = updateAI (afterArmies bm deltaTime) deltaTime
       \<and> (\<forall>x. Target (units (Update bm deltaTime) x) = Target (units (afterAI bm deltaTime) x))"
proof -
  let ?gs = "Groups (ArmyA bm) @ Groups (ArmyB bm)"
  have u: "units (afterArmies bm deltaTime) = snd (updateGroups deltaTime ?gs (units bm))"
    by (simp add: afterArmies_def updateArmies_units)
  have g: "Groups (ArmyA (afterArmies bm deltaTime)) @ Groups (ArmyB (afterArmies bm deltaTime))
             = fst (updateGroups deltaTime ?gs (units bm))"
    by (simp add: afterArmies_def updateArmies_groups)
  have d: "distinct (concat (map Group_GetAllUnits ?gs))"
    using assms(1) by (simp add: distinctUnits_def)
  have "\<forall>g \<in> set (Groups (ArmyA (afterArmies bm deltaTime))
                   @ Groups (ArmyB (afterArmies bm deltaTime))).
            \<forall>l. Leader g = Some l \<and> IsAlive (units (afterArmies bm deltaTime) l) \<longrightarrow>
              targetPosition g = anchor (units (afterArmies bm deltaTime) l)
              \<and> inFormation (units (afterArmies bm deltaTime)) g"
    unfolding u g using updateGroups_formation [OF d] by blast
  moreover have "afterAI bm deltaTime = updateAI (afterArmies bm deltaTime) deltaTime"
    by (simp add: afterAI_def)
  moreover have "\<forall>x. Target (units (Update bm deltaTime) x)
                     = Target (units (afterAI bm deltaTime) x)"
    using assms(2) by (simp add: Update_Target_afterAI)
  ultimately show ?thesis by blast
qed


lemma demo_slot:
  "formationPos (NewGroup demo_units 0 0 0 [2]) st 0 = \<lparr>X = 50, Y = 0\<rparr>"
  by (simp add: formationPos_def NewGroup_def demo_units_simps demo_unit_at_def Add_def)

lemma demo_Update_units:
  "units (Update (demo_battle 0 5) 1) = aiLoop [3] [0, 2] 1 (aiLoop [0, 2] [3] 1 demo_units1)"
  "Groups (ArmyA (Update (demo_battle 0 5) 1)) = [NewGroup demo_units 0 0 0 [2]]"
proof -
  have a: "IsActive (demo_battle 0 5)" by (simp add: demo_battle_def)
  show "units (Update (demo_battle 0 5) 1)
          = aiLoop [3] [0, 2] 1 (aiLoop [0, 2] [3] 1 demo_units1)"
    by (simp add: Update_active [OF a] demo_beforeWinCheck del: aiLoop.simps)
  show "Groups (ArmyA (Update (demo_battle 0 5) 1)) = [NewGroup demo_units 0 0 0 [2]]"
    by (simp add: Update_active [OF a] demo_beforeWinCheck demo_groups)
qed

theorem formation_before_AI_witness:
  "distinctUnits (demo_battle 0 5) \<and> IsActive (demo_battle 0 5) \<and>
   Groups (ArmyA (afterArmies (demo_battle 0 5) 1)) = [NewGroup demo_units 0 0 0 [2]] \<and>
   Leader (NewGroup demo_units 0 0 0 [2]) = Some 0 \<and>
   IsAlive (units (afterArmies (demo_battle 0 5) 1) 0) \<and>
   inFormation (units (afterArmies (demo_battle 0 5) 1)) (NewGroup demo_units 0 0 0 [2]) \<and>
   getAliveMembers (units (afterArmies (demo_battle 0 5) 1)) (NewGroup demo_units 0 0 0 [2]) = [2] \<and>
   Target (units (afterArmies (demo_battle 0 5) 1) 2) = \<lparr>X = 50, Y = 0\<rparr> \<and>
   Target (units (Update (demo_battle 0 5) 1) 2) = \<lparr>X = 90, Y = 0\<rparr>"
proof -
  have d: "distinctUnits (demo_battle 0 5)"
    by (simp add: distinctUnits_def demo_battle_def NewGroup_def Group_GetAllUnits_def)
  have a: "IsActive (demo_battle 0 5)" by (simp add: demo_battle_def)
  have g: "Groups (ArmyA (afterArmies (demo_battle 0 5) 1)) = [NewGroup demo_units 0 0 0 [2]]"
    by (simp add: demo_afterArmies demo_groups)
  have u: "units (afterArmies (demo_battle 0 5) 1) = demo_units1"
    by (simp add: demo_afterArmies demo_armies_updated)
  have l: "Leader (NewGroup demo_units 0 0 0 [2]) = Some 0" by (simp add: NewGroup_def)
  have al: "IsAlive (units (afterArmies (demo_battle 0 5) 1) 0)"
    by (simp add: u demo_units1_simps demo_unit_at_def NewUnit_def)
  have am: "getAliveMembers (units (afterArmies (demo_battle 0 5) 1))
              (NewGroup demo_units 0 0 0 [2]) = [2]"
    by (simp add: u getAliveMembers_def NewGroup_def demo_units1_simps demo_unit_at_def
        NewUnit_def)
  note T = formation_before_AI [OF d a, of 1]
  have "NewGroup demo_units 0 0 0 [2]
          \<in> set (Groups (ArmyA (afterArmies (demo_battle 0 5) 1))
                 @ Groups (ArmyB (afterArmies (demo_battle 0 5) 1)))"
    by (simp add: g)
  with T [THEN conjunct1] l al
  have f: "inFormation (units (afterArmies (demo_battle 0 5) 1)) (NewGroup demo_units 0 0 0 [2])"
    by blast
  then have t: "Target (units (afterArmies (demo_battle 0 5) 1) 2) = \<lparr>X = 50, Y = 0\<rparr>"
    unfolding inFormation_def am Let_def by (simp add: demo_slot)
  have "Target (units (Update (demo_battle 0 5) 1) 2)
          = Target (units (afterAI (demo_battle 0 5) 1) 2)"
    using T [THEN conjunct2, THEN conjunct2] by blast
  then have e: "Target (units (Update (demo_battle 0 5) 1) 2) = \<lparr>X = 90, Y = 0\<rparr>"
    by (simp add: demo_afterAI_units demo_ai_targets del: aiLoop.simps)
  show ?thesis
    using d a g l al f am t e by simp
qed

text \<open>
  Claim C1 as stated fails: in the small battle the leader of army A's group is alive
  and its member at address 2 is alive and not retreating, but at the end of \<open>Update\<close>
  the member's movement target is \<open>(90, 0)\<close>, written by its own AI after the formation
  write, and not its formation slot \<open>(50, 0)\<close> (nor the slot \<open>(100, 0)\<close> around the
  anchor recomputed from the leader at the end of the tick).
\<close>

theorem formation_overridden_by_AI_counterexample:
  "IsActive (demo_battle 0 5) \<and>
   Groups (ArmyA (Update (demo_battle 0 5) 1)) = [NewGroup demo_units 0 0 0 [2]] \<and>
   Leader (NewGroup demo_units 0 0 0 [2]) = Some 0 \<and>
   IsAlive (units (Update (demo_battle 0 5) 1) 0) \<and>
   getAliveMembers (units (Update (demo_battle 0 5) 1)) (NewGroup demo_units 0 0 0 [2]) = [2] \<and>
   formationPos (NewGroup demo_units 0 0 0 [2]) (2 * pi / 1) 0 = \<lparr>X = 50, Y = 0\<rparr> \<and>
   formationPos ((NewGroup demo_units 0 0 0 [2])
                   \<lparr>targetPosition := anchor (units (Update (demo_battle 0 5) 1) 0)\<rparr>)
     (2 * pi / 1) 0 = \<lparr>X = 100, Y = 0\<rparr> \<and>
   Target (units (Update (demo_battle 0 5) 1) 2) = \<lparr>X = 90, Y = 0\<rparr> \<and>
   \<not> inFormation (units (Update (demo_battle 0 5) 1)) (NewGroup demo_units 0 0 0 [2])"
proof -
  have a: "IsActive (demo_battle 0 5)" by (simp add: demo_battle_def)
  have al: "IsAlive (units (Update (demo_battle 0 5) 1) 0)"
    by (simp add: demo_Update_units demo_units1_simps demo_unit_at_def NewUnit_def
        del: aiLoop.simps)
  have am: "getAliveMembers (units (Update (demo_battle 0 5) 1))
              (NewGroup demo_units 0 0 0 [2]) = [2]"
    by (simp add: demo_Update_units getAliveMembers_def NewGroup_def demo_units1_simps
        demo_unit_at_def NewUnit_def del: aiLoop.simps)
  have t: "Target (units (Update (demo_battle 0 5) 1) 2) = \<lparr>X = 90, Y = 0\<rparr>"
    "Target (units (Update (demo_battle 0 5) 1) 0) = \<lparr>X = 50, Y = 0\<rparr>"
    by (simp_all add: demo_Update_units demo_ai_targets del: aiLoop.simps)
  have p: "Position (units (Update (demo_battle 0 5) 1) 0) = \<lparr>X = 0, Y = 0\<rparr>"
    by (simp add: demo_Update_units demo_units1_simps demo_unit_at_def del: aiLoop.simps)
  have an: "anchor (units (Update (demo_battle 0 5) 1) 0) = \<lparr>X = 50, Y = 0\<rparr>"
    by (simp add: anchor_def t p Distance_same_Y)
  have s2: "formationPos ((NewGroup demo_units 0 0 0 [2])
                   \<lparr>targetPosition := anchor (units (Update (demo_battle 0 5) 1) 0)\<rparr>)
     (2 * pi / 1) 0 = \<lparr>X = 100, Y = 0\<rparr>"
    unfolding an by (simp add: formationPos_def NewGroup_def Add_def)
  have nf: "\<not> inFormation (units (Update (demo_battle 0 5) 1)) (NewGroup demo_units 0 0 0 [2])"
    unfolding inFormation_def am Let_def by (simp add: demo_slot t)
  have l: "Leader (NewGroup demo_units 0 0 0 [2]) = Some 0" by (simp add: NewGroup_def)
  show ?thesis
    using a al am t(1) s2 nf l by (simp add: demo_Update_units(2) demo_slot)
qed

subsection \<open>Health, death and retreat\<close>

lemma sint_diff_no_wrap:
  fixes h d :: goint
  assumes "0 <s h" "1 \<le>s d"
  shows "sint (h - d) = sint h - sint d"
proof -
  have b: "sint h < 2 ^ 63" "sint d < 2 ^ 63" "- (2 ^ 63) \<le> sint h" "- (2 ^ 63) \<le> sint d"
    using sint_lt [of h] sint_lt [of d] sint_ge [of h] sint_ge [of d] by simp_all
  have "0 < sint h" "1 \<le> sint d"
    using assms by (simp_all add: word_sless_alt word_sle_eq)
  with b have "- (2 ^ 63) \<le> sint h - sint d" "sint h - sint d < 2 ^ 63" by simp_all
  then show ?thesis
    by (simp add: sint_diff2 signed_take_bit_int_eq_self)
qed

lemma TakeDamage_healthInv:
  assumes "healthInv u" "1 \<le>s d"
  shows "healthInv (TakeDamage u d)"
proof (cases "IsAlive u")
  case False
  with assms show ?thesis by (simp add: TakeDamage_def)
next
  case True
  with assms have pos: "0 <s HP u" by (simp add: healthInv_def)
  have e: "sint (HP u - d) = sint (HP u) - sint d"
    using pos assms(2) by (rule sint_diff_no_wrap)
  have "1 \<le> sint d" using assms(2) by (simp add: word_sle_eq)
  with e have "sint (HP u - d) < sint (HP u)" by simp
  with assms(1) True show ?thesis
    by (auto simp: TakeDamage_def healthInv_def Let_def word_sless_alt word_sle_eq)
qed

lemma TakeDamage_stays_dead: "IsAlive (TakeDamage u d) \<Longrightarrow> IsAlive u"
  by (auto simp: TakeDamage_def Let_def split: if_splits)

lemma Attack_healthInv:
  assumes "\<forall>x. healthInv (s x)"
  shows "healthInv (snd (Attack s a t) x)"
proof -
  have d: "1 \<le>s (if dd <s 1 then 1 else dd)" for dd :: goint
    by (simp add: word_sle_eq word_sless_alt)
  have keep: "healthInv (u\<lparr>LastAttackTime := c\<rparr>) = healthInv u" for u c
    by (simp add: healthInv_def)
  show ?thesis
    using assms d
    by (simp add: Attack_def Let_def keep TakeDamage_healthInv)
qed

lemma Attack_stays_dead: "IsAlive (snd (Attack s a t) x) \<Longrightarrow> IsAlive (s x)"
  by (auto simp: Attack_def Let_def dest: TakeDamage_stays_dead split: if_splits)

lemma combatStep_healthInv:
  "\<forall>x. healthInv (s x) \<Longrightarrow> healthInv (combatStep a es s x)"
  by (simp add: combatStep_def Attack_healthInv split: option.splits)

lemma combatStep_stays_dead: "IsAlive (combatStep a es s x) \<Longrightarrow> IsAlive (s x)"
  by (auto simp: combatStep_def dest: Attack_stays_dead split: option.splits if_splits)

lemma combatLoop_healthInv:
  "\<forall>x. healthInv (s x) \<Longrightarrow> healthInv (combatLoop us es s x)"
  by (induction us arbitrary: s x) (simp_all add: combatStep_healthInv)

lemma combatLoop_stays_dead: "IsAlive (combatLoop us es s x) \<Longrightarrow> IsAlive (s x)"
  by (induction us arbitrary: s) (auto dest: combatStep_stays_dead)

lemma processCombat_healthInv:
  "\<forall>x. healthInv (units bm x) \<Longrightarrow> healthInv (units (processCombat bm) x)"
  by (simp add: processCombat_def Let_def combatLoop_healthInv)

lemma processCombat_stays_dead:
  "IsAlive (units (processCombat bm) x) \<Longrightarrow> IsAlive (units bm x)"
  by (auto simp: processCombat_def Let_def dest!: combatLoop_stays_dead)

lemma healthInv_cong:
  "HP u = HP v \<Longrightarrow> MaxHP u = MaxHP v \<Longrightarrow> IsAlive u = IsAlive v \<Longrightarrow> healthInv u = healthInv v"
  by (simp add: healthInv_def)

lemma afterAI_health:
  "HP (units (afterAI bm dt) x) = HP (units bm x)"
  "MaxHP (units (afterAI bm dt) x) = MaxHP (units bm x)"
  "IsAlive (units (afterAI bm dt) x) = IsAlive (units bm x)"
  by (simp_all add: afterAI_def afterArmies_def updateArmies_units)

lemma afterAI_keeps_retreating:
  "IsRetreating (units bm x) \<Longrightarrow> IsRetreating (units (afterAI bm dt) x)"
  by (simp add: afterAI_def afterArmies_def updateArmies_units updateGroups_keeps_retreating)

lemma Update_healthInv:
  assumes "\<forall>x. healthInv (units bm x)"
  shows "healthInv (units (Update bm dt) x)"
proof (cases "IsActive bm")
  case False
  with assms show ?thesis by (simp add: Update_inactive)
next
  case True
  have "healthInv (units (handleCollisions (afterAI bm dt)) y)" for y
    using assms healthInv_cong [of "units (handleCollisions (afterAI bm dt)) y" "units bm y"]
    by (simp add: afterAI_health)
  then have "healthInv (units (processCombat (handleCollisions (afterAI bm dt))) x)"
    by (intro processCombat_healthInv) simp
  with True show ?thesis by (simp add: Update_active beforeWinCheck_def)
qed

lemma Update_stays_dead:
  "\<not> IsAlive (units bm x) \<Longrightarrow> \<not> IsAlive (units (Update bm dt) x)"
proof (cases "IsActive bm")
  case False
  assume "\<not> IsAlive (units bm x)"
  with False show ?thesis by (simp add: Update_inactive)
next
  case True
  assume d: "\<not> IsAlive (units bm x)"
  have "IsAlive (units (Update bm dt) x) \<Longrightarrow> IsAlive (units bm x)"
    using True processCombat_stays_dead [of "handleCollisions (afterAI bm dt)" x]
    by (simp add: Update_active beforeWinCheck_def afterAI_health)
  with d show ?thesis by blast
qed

lemma Update_keeps_retreating:
  "IsRetreating (units bm x) \<Longrightarrow> IsRetreating (units (Update bm dt) x)"
  by (cases "IsActive bm")
     (simp_all add: Update_active Update_inactive beforeWinCheck_def afterAI_keeps_retreating)

lemma apply_event_inv:
  assumes "\<forall>x. healthInv (units bm x)"
  shows "(\<forall>x. healthInv (units (apply_event bm e) x))
       \<and> (\<not> IsAlive (units bm x) \<longrightarrow> \<not> IsAlive (units (apply_event bm e) x))
       \<and> (IsRetreating (units bm x) \<longrightarrow> IsRetreating (units (apply_event bm e) x))"
  using assms
  by (cases e) (simp_all add: StartBattle_def Update_healthInv Update_stays_dead
      Update_keeps_retreating)

lemma run_inv:
  assumes "\<forall>x. healthInv (units bm x)"
  shows "(\<forall>x. healthInv (units (run bm es) x))
       \<and> (\<not> IsAlive (units bm x) \<longrightarrow> \<not> IsAlive (units (run bm es) x))
       \<and> (IsRetreating (units bm x) \<longrightarrow> IsRetreating (units (run bm es) x))"
  using assms
proof (induction es arbitrary: bm)
  case Nil
  then show ?case by (simp add: run_def)
next
  case (Cons e es)
  have r: "run bm (e # es) = run (apply_event bm e) es" by (simp add: run_def)
  from apply_event_inv [OF Cons.prems, of e x]
  have a: "\<forall>x. healthInv (units (apply_event bm e) x)"
    "\<not> IsAlive (units bm x) \<longrightarrow> \<not> IsAlive (units (apply_event bm e) x)"
    "IsRetreating (units bm x) \<longrightarrow> IsRetreating (units (apply_event bm e) x)"
    by blast+
  from Cons.IH [OF a(1)] a(2,3) show ?case unfolding r by blast
qed


text \<open>
  Claim C9, as amended.  If every unit satisfies the health invariant (HP within
  \<open>[0, MaxHP]\<close>, alive exactly when HP is positive), as every unit that \<open>NewUnit\<close>
  creates from a configuration with positive HP does, then after any sequence of
  \<open>StartBattle\<close> calls and ticks every unit still satisfies it; a unit that is dead stays
  dead, and a unit that is retreating stays retreating.  A new unit is not retreating.
\<close>

theorem health_invariant:
  assumes "\<forall>x. healthInv (units bm x)"
  shows "(\<forall>x. healthInv (units (run bm events) x)
              \<and> (\<not> IsAlive (units bm x) \<longrightarrow> \<not> IsAlive (units (run bm events) x))
              \<and> (IsRetreating (units bm x) \<longrightarrow> IsRetreating (units (run bm events) x)))
       \<and> (\<forall>uid ty config isLeader groupID armyID.
             0 <s cfg_HP config \<longrightarrow>
               healthInv (NewUnit uid ty config isLeader groupID armyID)
               \<and> \<not> IsRetreating (NewUnit uid ty config isLeader groupID armyID))"
proof -
  have "healthInv (NewUnit uid ty config isLeader groupID armyID)
          \<and> \<not> IsRetreating (NewUnit uid ty config isLeader groupID armyID)"
    if "0 <s cfg_HP config" for uid ty config isLeader groupID armyID
    using that by (simp add: healthInv_def NewUnit_def word_sless_alt word_sle_eq)
  then show ?thesis
    using run_inv [OF assms, of events] by blast
qed

lemma demo_units_healthInv: "healthInv (demo_units x)"
  by (simp add: demo_units_def healthInv_def demo_unit_at_def NewUnit_def demo_infantry_cfg_def
      word_sless_alt word_sle_eq)

theorem health_invariant_witness:
  "(\<forall>x. healthInv (units demo_routed x)) \<and>
   \<not> IsAlive (units demo_routed 0) \<and> IsRetreating (units demo_routed 2) \<and>
   healthInv (units (run demo_routed [Start, Tick 1, Tick 1]) 3) \<and>
   \<not> IsAlive (units (run demo_routed [Start, Tick 1, Tick 1]) 0) \<and>
   IsRetreating (units (run demo_routed [Start, Tick 1, Tick 1]) 2) \<and>
   0 <s cfg_HP demo_infantry_cfg \<and>
   healthInv (NewUnit 1 UnitTypeInfantry demo_infantry_cfg False 0 0)"
proof -
  have "healthInv (units demo_routed x)" for x
  proof (cases "x = 0 \<or> x = 2")
    case True
    then show ?thesis
      by (auto simp: demo_routed_def demo_fallen_def demo_battle_def healthInv_def
          demo_units_simps demo_unit_at_def NewUnit_def demo_infantry_cfg_def
          StartRetreating_def word_sless_alt word_sle_eq)
  next
    case False
    then show ?thesis
      using demo_units_healthInv [of x]
      by (simp add: demo_routed_def demo_fallen_def demo_battle_def)
  qed
  then have h: "\<forall>x. healthInv (units demo_routed x)" by blast
  have d: "\<not> IsAlive (units demo_routed 0)" "IsRetreating (units demo_routed 2)"
    by (simp_all add: demo_routed_def demo_fallen_def demo_battle_def)
  have c: "0 <s cfg_HP demo_infantry_cfg"
    by (simp add: demo_infantry_cfg_def word_sless_alt)
  note T = health_invariant [OF h, of "[Start, Tick 1, Tick 1]"]
  show ?thesis
    using T [THEN conjunct1] T [THEN conjunct2] h d c by blast
qed

text \<open>
  Claim C9 as stated fails for a unit type configured with 0 hit points: \<open>NewUnit\<close>
  makes the unit alive with HP 0.
\<close>

theorem NewUnit_alive_without_HP_counterexample:
  "IsAlive (NewUnit 1 UnitTypeInfantry demo_ghost_cfg False 0 0) \<and>
   HP (NewUnit 1 UnitTypeInfantry demo_ghost_cfg False 0 0) = 0 \<and>
   \<not> 0 <s HP (NewUnit 1 UnitTypeInfantry demo_ghost_cfg False 0 0) \<and>
   \<not> healthInv (NewUnit 1 UnitTypeInfantry demo_ghost_cfg False 0 0)"
  by (simp add: NewUnit_def demo_ghost_cfg_def healthInv_def word_sless_alt)

subsection \<open>Groups whose leader has fallen\<close>

lemma Group_Update_leaderDown:
  "leaderDown s g \<Longrightarrow> Group_Update g dt s = (g, handleLeaderDeath g s)"
  by (simp add: Group_Update_def leaderDown_def split: option.splits)

lemma leaderDown_cong:
  "\<forall>x. IsAlive (s x) = IsAlive (s' x) \<Longrightarrow> leaderDown s g = leaderDown s' g"
  by (simp add: leaderDown_def split: option.splits)

lemma GetAliveUnits_member:
  "u \<in> set (GetAliveUnits s a) \<Longrightarrow> IsAlive (s u) \<and> \<not> IsRetreating (s u)"
  by (simp add: GetAliveUnits_def)

lemma updateGroups_dead_leader:
  assumes "distinct (concat (map Group_GetAllUnits gs))" "g \<in> set gs" "leaderDown s g"
    "m \<in> set (Members g)"
  shows "Position (snd (updateGroups dt gs s) m) = Position (s m)
       \<and> (IsAlive (s m) \<longrightarrow> IsRetreating (snd (updateGroups dt gs s) m))
       \<and> g \<in> set (fst (updateGroups dt gs s))"
  using assms
proof (induction gs arbitrary: s)
  case Nil
  then show ?case by simp
next
  case (Cons g0 gs0)
  define g1 where "g1 = fst (Group_Update g0 dt s)"
  define s1 where "s1 = snd (Group_Update g0 dt s)"
  have ug: "updateGroups dt (g0 # gs0) s
              = (g1 # fst (updateGroups dt gs0 s1), snd (updateGroups dt gs0 s1))"
    by (simp add: split_beta g1_def s1_def)
  have dgs: "distinct (concat (map Group_GetAllUnits gs0))"
    and disj: "set (Group_GetAllUnits g0) \<inter> set (concat (map Group_GetAllUnits gs0)) = {}"
    using Cons.prems(1) by auto
  have mg: "m \<in> set (Group_GetAllUnits g)"
    using Cons.prems(4) by (simp add: Group_GetAllUnits_def)
  show ?case
  proof (cases "g = g0")
    case True
    have gu: "g1 = g0" "s1 = handleLeaderDeath g0 s"
      using Cons.prems(3) True by (simp_all add: g1_def s1_def Group_Update_leaderDown)
    have "m \<notin> set (concat (map Group_GetAllUnits gs0))"
      using mg True disj by auto
    then have fr: "snd (updateGroups dt gs0 s1) m = s1 m" by (rule updateGroups_frame)
    have "IsAlive (s m) \<longrightarrow> IsRetreating (s1 m)"
      using Cons.prems(4) True by (simp add: gu handleLeaderDeath_def retreatLoop_retreats)
    then show ?thesis
      unfolding ug using True fr by (simp add: gu)
  next
    case False
    then have gin: "g \<in> set gs0" using Cons.prems(2) by simp
    then have "set (Group_GetAllUnits g) \<subseteq> set (concat (map Group_GetAllUnits gs0))" by auto
    with mg disj have "m \<notin> set (Group_GetAllUnits g0)" by auto
    then have fr: "s1 m = s m" unfolding s1_def by (rule Group_Update_frame)
    have ld: "leaderDown s1 g"
      using Cons.prems(3) leaderDown_cong [of s1 s g] by (simp add: s1_def)
    from Cons.IH [OF dgs gin ld Cons.prems(4)] show ?thesis
      unfolding ug by (simp add: fr)
  qed
qed

lemma afterArmies_allGroups:
  "units (afterArmies bm dt) = snd (updateGroups dt (allGroups bm) (units bm))"
  "allGroups (afterArmies bm dt) = fst (updateGroups dt (allGroups bm) (units bm))"
  by (simp_all add: afterArmies_def allGroups_def updateArmies_units updateArmies_groups)

lemma allGroups_Update:
  "IsActive bm \<Longrightarrow> allGroups (Update bm dt) = allGroups (afterArmies bm dt)"
  by (simp add: Update_active beforeWinCheck_def afterAI_def allGroups_def)

lemma distinctUnits_Update: "distinctUnits (Update bm dt) = distinctUnits bm"
proof (cases "IsActive bm")
  case False
  then show ?thesis by (simp add: Update_inactive)
next
  case True
  have "map Group_GetAllUnits (allGroups (Update bm dt)) = map Group_GetAllUnits (allGroups bm)"
    by (simp add: allGroups_Update [OF True] afterArmies_allGroups)
  then show ?thesis
    by (simp add: distinctUnits_def allGroups_def)
qed

lemma Update_dead_leader:
  assumes d: "distinctUnits bm" and g: "g \<in> set (allGroups bm)"
    and ld: "leaderDown (units bm) g" and m: "m \<in> set (Members g)"
  shows "Position (units (Update bm dt) m) = Position (units bm m)
       \<and> g \<in> set (allGroups (Update bm dt))
       \<and> leaderDown (units (Update bm dt)) g
       \<and> (IsActive bm \<and> IsAlive (units bm m) \<longrightarrow> IsRetreating (units (Update bm dt) m))"
proof (cases "IsActive bm")
  case False
  with g ld show ?thesis by (simp add: Update_inactive)
next
  case True
  have dd: "distinct (concat (map Group_GetAllUnits (allGroups bm)))"
    using d by (simp add: distinctUnits_def allGroups_def)
  note A = updateGroups_dead_leader [OF dd g ld m, of dt, folded afterArmies_allGroups]
  have p2: "Position (units (afterArmies bm dt) m) = Position (units bm m)"
    and r2: "IsAlive (units bm m) \<longrightarrow> IsRetreating (units (afterArmies bm dt) m)"
    and g2: "g \<in> set (allGroups (afterArmies bm dt))"
    using A by simp_all
  have a2: "IsAlive (units (afterArmies bm dt) x) = IsAlive (units bm x)" for x
    by (simp add: afterArmies_allGroups)
  have out: "\<not> IsAlive (units (afterAI bm dt) m) \<or> IsRetreating (units (afterAI bm dt) m)"
    using r2 a2 [of m] by (auto simp: afterAI_def)
  have "m \<notin> set (GetAliveUnits (units (afterAI bm dt)) (ArmyA (afterAI bm dt))
                  @ GetAliveUnits (units (afterAI bm dt)) (ArmyB (afterAI bm dt)))"
    using out by (auto dest: GetAliveUnits_member)
  then have "units (handleCollisions (afterAI bm dt)) m = units (afterAI bm dt) m"
    by (simp add: handleCollisions_def Let_def collideAll_frame)
  then have p: "Position (units (Update bm dt) m) = Position (units bm m)"
    using True by (simp add: Update_active beforeWinCheck_def afterAI_def p2)
  have gin: "g \<in> set (allGroups (Update bm dt))"
    using g2 by (simp add: allGroups_Update [OF True])
  have ldn: "leaderDown (units (Update bm dt)) g"
    using ld Update_stays_dead [of bm _ dt]
    by (auto simp: leaderDown_def split: option.splits)
  have rt: "IsAlive (units bm m) \<longrightarrow> IsRetreating (units (Update bm dt) m)"
    using r2 True by (simp add: Update_active beforeWinCheck_def afterAI_def)
  show ?thesis using p gin ldn rt by simp
qed


lemma apply_event_dead_leader:
  assumes "distinctUnits bm" "g \<in> set (allGroups bm)" "leaderDown (units bm) g"
    "m \<in> set (Members g)"
  shows "Position (units (apply_event bm e) m) = Position (units bm m)
       \<and> distinctUnits (apply_event bm e)
       \<and> g \<in> set (allGroups (apply_event bm e))
       \<and> leaderDown (units (apply_event bm e)) g"
proof (cases e)
  case Start
  with assms show ?thesis
    by (simp add: StartBattle_def distinctUnits_def allGroups_def)
next
  case (Tick dt)
  with Update_dead_leader [OF assms, of dt] assms(1) show ?thesis
    by (simp add: distinctUnits_Update)
qed

lemma run_dead_leader:
  assumes "distinctUnits bm" "g \<in> set (allGroups bm)" "leaderDown (units bm) g"
    "m \<in> set (Members g)"
  shows "Position (units (run bm es) m) = Position (units bm m)
       \<and> leaderDown (units (run bm es)) g"
  using assms
proof (induction es arbitrary: bm)
  case Nil
  then show ?case by (simp add: run_def)
next
  case (Cons e es)
  have r: "run bm (e # es) = run (apply_event bm e) es" by (simp add: run_def)
  from apply_event_dead_leader [OF Cons.prems, of e]
  have a: "Position (units (apply_event bm e) m) = Position (units bm m)"
    "distinctUnits (apply_event bm e)" "g \<in> set (allGroups (apply_event bm e))"
    "leaderDown (units (apply_event bm e)) g"
    by simp_all
  from Cons.IH [OF a(2,3,4) Cons.prems(4)] a(1) show ?case unfolding r by simp
qed

text \<open>
  Claim C10.  Take a state in which the leader of a group is dead (or nil), no unit
  being shared between groups.  Whatever follows (ticks of any length, \<open>StartBattle\<close>
  calls), the position of every member of that group stays what it is, and the leader
  stays down.  The reasons, as the claim gives them: \<open>Group.Update\<close> of such a group
  only runs \<open>handleLeaderDeath\<close> and updates no member; after an active tick every
  member that is alive is retreating; and the alive-unit lists consumed by the AI,
  collision and combat passes hold only units that are alive and not retreating.
\<close>

theorem fallen_group_never_moves:
  assumes "distinctUnits bm" "g \<in> set (allGroups bm)" "leaderDown (units bm) g"
    "m \<in> set (Members g)"
  shows "Position (units (run bm events) m) = Position (units bm m)
       \<and> leaderDown (units (run bm events)) g
       \<and> (\<forall>dt. IsActive bm \<and> IsAlive (units bm m) \<longrightarrow> IsRetreating (units (Update bm dt) m))
       \<and> (\<forall>dt s. leaderDown s g \<longrightarrow> Group_Update g dt s = (g, handleLeaderDeath g s))
       \<and> (\<forall>s a u. u \<in> set (GetAliveUnits s a) \<longrightarrow> IsAlive (s u) \<and> \<not> IsRetreating (s u))"
proof -
  have "\<forall>dt. IsActive bm \<and> IsAlive (units bm m) \<longrightarrow> IsRetreating (units (Update bm dt) m)"
    using Update_dead_leader [OF assms] by blast
  then show ?thesis
    using run_dead_leader [OF assms, of events] Group_Update_leaderDown GetAliveUnits_member
    by blast
qed

theorem fallen_group_never_moves_witness:
  "distinctUnits demo_fallen \<and>
   NewGroup demo_units 0 0 0 [2] \<in> set (allGroups demo_fallen) \<and>
   leaderDown (units demo_fallen) (NewGroup demo_units 0 0 0 [2]) \<and>
   2 \<in> set (Members (NewGroup demo_units 0 0 0 [2])) \<and>
   IsActive demo_fallen \<and> IsAlive (units demo_fallen 2) \<and>
   \<not> IsRetreating (units demo_fallen 2) \<and>
   Position (units demo_fallen 2) = \<lparr>X = 10, Y = 0\<rparr> \<and>
   IsRetreating (units (Update demo_fallen 1) 2) \<and>
   Position (units (run demo_fallen [Tick 1, Tick 1, Start, Tick 1]) 2) = \<lparr>X = 10, Y = 0\<rparr>"
proof -
  have d: "distinctUnits demo_fallen"
    by (simp add: distinctUnits_def demo_fallen_def demo_battle_def NewGroup_def
        Group_GetAllUnits_def)
  have g: "NewGroup demo_units 0 0 0 [2] \<in> set (allGroups demo_fallen)"
    by (simp add: allGroups_def demo_fallen_def demo_battle_def)
  have ld: "leaderDown (units demo_fallen) (NewGroup demo_units 0 0 0 [2])"
    by (simp add: leaderDown_def NewGroup_def demo_fallen_def)
  have m: "2 \<in> set (Members (NewGroup demo_units 0 0 0 [2]))"
    by (simp add: NewGroup_def)
  have s: "IsActive demo_fallen" "IsAlive (units demo_fallen 2)"
    "\<not> IsRetreating (units demo_fallen 2)" "Position (units demo_fallen 2) = \<lparr>X = 10, Y = 0\<rparr>"
    by (simp_all add: demo_fallen_def demo_battle_def demo_units_simps demo_unit_at_def
        NewUnit_def)
  note T = fallen_group_never_moves [OF d g ld m, of "[Tick 1, Tick 1, Start, Tick 1]"]
  have "IsRetreating (units (Update demo_fallen 1) 2)"
    using T [THEN conjunct2, THEN conjunct2, THEN conjunct1] s(1,2) by blast
  moreover have "Position (units (run demo_fallen [Tick 1, Tick 1, Start, Tick 1]) 2)
                   = \<lparr>X = 10, Y = 0\<rparr>"
    using T [THEN conjunct1] s(4) by simp
  ultimately show ?thesis
    using d g ld m s by simp
qed

end
